theory Spec2Isabelle
  imports Complex_Main "HOL-Library.Word"
begin

section \<open>Python values used by the connection core\<close>

text \<open>
  The embedding follows \<^verbatim>\<open>src/Python/unreal_mcp_server.py\<close>, class
  \<^verbatim>\<open>UnrealConnection\<close>. A Python \<^verbatim>\<open>str\<close> is a sequence of Unicode code
  points, a \<^verbatim>\<open>bytes\<close> object a sequence of octets.
\<close>

type_synonym str = "nat list"
type_synonym bytes = "8 word list"

definition ustr :: "string \<Rightarrow> str" where
  \<comment> \<open>an ASCII literal of the source as a Python string\<close>
  "ustr s = map (of_char :: char \<Rightarrow> nat) s"

definition newline :: nat where
  "newline = 10"

text \<open>
  A decoded JSON document, as \<^verbatim>\<open>json.loads\<close> builds it. A \<^verbatim>\<open>dict\<close> keeps its
  items in insertion order; a \<^verbatim>\<open>float\<close> is identified by its \<^verbatim>\<open>repr\<close>.
\<close>

datatype json =
    JNull
  | JBool bool
  | JInt int
  | JFloat string
  | JStr str
  | JList "json list"
  | JDict "(str \<times> json) list"

type_synonym pydict = "(str \<times> json) list"

fun truthy :: "json \<Rightarrow> bool" where
  \<comment> \<open>Python truth value testing, as the operator \<^verbatim>\<open>or\<close> applies it\<close>
  "truthy JNull = False"
| "truthy (JBool b) = b"
| "truthy (JInt i) = (i \<noteq> 0)"
| "truthy (JFloat r) = (r \<noteq> ''0.0'' \<and> r \<noteq> ''-0.0'')"
| "truthy (JStr s) = (s \<noteq> [])"
| "truthy (JList xs) = (xs \<noteq> [])"
| "truthy (JDict d) = (d \<noteq> [])"

fun type_name :: "json \<Rightarrow> string" where
  "type_name JNull = ''NoneType''"
| "type_name (JBool b) = ''bool''"
| "type_name (JInt i) = ''int''"
| "type_name (JFloat r) = ''float''"
| "type_name (JStr s) = ''str''"
| "type_name (JList xs) = ''list''"
| "type_name (JDict d) = ''dict''"

fun is_dict :: "json \<Rightarrow> bool" where
  "is_dict (JDict d) = True"
| "is_dict v = False"

definition dict_get :: "pydict \<Rightarrow> string \<Rightarrow> json" where
  \<comment> \<open>\<^verbatim>\<open>d.get(key)\<close>: \<^verbatim>\<open>None\<close> when the key is absent\<close>
  "dict_get d k = (case map_of d (ustr k) of None \<Rightarrow> JNull | Some v \<Rightarrow> v)"

definition dict_get_default :: "pydict \<Rightarrow> string \<Rightarrow> json \<Rightarrow> json" where
  \<comment> \<open>\<^verbatim>\<open>d.get(key, default)\<close>\<close>
  "dict_get_default d k dflt = (case map_of d (ustr k) of None \<Rightarrow> dflt | Some v \<Rightarrow> v)"

definition dict_contains :: "pydict \<Rightarrow> string \<Rightarrow> bool" where
  \<comment> \<open>\<^verbatim>\<open>key in d\<close>\<close>
  "dict_contains d k = (map_of d (ustr k) \<noteq> None)"

subsection \<open>Exceptions\<close>

text \<open>
  The exception classes the connection code meets. \<^verbatim>\<open>socket.timeout\<close> is caught by
  its own handler in \<^verbatim>\<open>receive_full_response\<close>; every other class is an
  \<^verbatim>\<open>Exception\<close> that carries the text \<^verbatim>\<open>str(e)\<close> returns.
\<close>

datatype exn =
    SocketTimeout
  | OSError str
  | UnicodeDecodeError str
  | UnicodeEncodeError str
  | AttributeError str
  | Exception str

fun str_exn :: "exn \<Rightarrow> str" where
  \<comment> \<open>\<^verbatim>\<open>str(e)\<close>\<close>
  "str_exn SocketTimeout = ustr ''timed out''"
| "str_exn (OSError m) = m"
| "str_exn (UnicodeDecodeError m) = m"
| "str_exn (UnicodeEncodeError m) = m"
| "str_exn (AttributeError m) = m"
| "str_exn (Exception m) = m"

definition no_attribute :: "string \<Rightarrow> string \<Rightarrow> exn" where
  \<comment> \<open>the \<^verbatim>\<open>AttributeError\<close> of an attribute access on an object without it\<close>
  "no_attribute ty attr =
     AttributeError ([39] @ ustr ty @ [39] @ ustr '' object has no attribute '' @ [39] @ ustr attr @ [39])"

subsection \<open>Library functions the code calls\<close>

text \<open>
  \<^verbatim>\<open>json.dumps\<close> and \<^verbatim>\<open>json.loads\<close> belong to the Python standard library, not to
  the repository: they are parameters of the model. \<^verbatim>\<open>json_loads\<close> is \<open>None\<close> where
  \<^verbatim>\<open>json.loads\<close> raises \<^verbatim>\<open>JSONDecodeError\<close>. The texts of the codec errors are
  parameters as well.
\<close>

record pylib =
  json_dumps :: "json \<Rightarrow> str"
  json_loads :: "str \<Rightarrow> json option"
  decode_error_str :: "bytes \<Rightarrow> str"
  encode_error_str :: "str \<Rightarrow> str"

subsection \<open>UTF-8\<close>

definition encode_code_point :: "nat \<Rightarrow> bytes option" where
  \<comment> \<open>one code point; \<open>None\<close> for a surrogate, which \<^verbatim>\<open>str.encode\<close> refuses\<close>
  "encode_code_point c =
     (if c < 0x80 then Some [of_nat c]
      else if c < 0x800 then Some [of_nat (0xC0 + c div 64), of_nat (0x80 + c mod 64)]
      else if 0xD800 \<le> c \<and> c < 0xE000 then None
      else if c < 0x10000 then
        Some [of_nat (0xE0 + c div 4096), of_nat (0x80 + (c div 64) mod 64), of_nat (0x80 + c mod 64)]
      else if c < 0x110000 then
        Some [of_nat (0xF0 + c div 262144), of_nat (0x80 + (c div 4096) mod 64),
              of_nat (0x80 + (c div 64) mod 64), of_nat (0x80 + c mod 64)]
      else None)"

fun encode_utf8 :: "str \<Rightarrow> bytes option" where
  \<comment> \<open>\<^verbatim>\<open>s.encode('utf-8')\<close>; \<open>None\<close> is \<^verbatim>\<open>UnicodeEncodeError\<close>\<close>
  "encode_utf8 [] = Some []"
| "encode_utf8 (c # cs) =
     (case encode_code_point c of
        None \<Rightarrow> None
      | Some bs \<Rightarrow> (case encode_utf8 cs of None \<Rightarrow> None | Some rest \<Rightarrow> Some (bs @ rest)))"

definition continuation :: "8 word \<Rightarrow> bool" where
  "continuation b = (0x80 \<le> unat b \<and> unat b < 0xC0)"

definition low6 :: "8 word \<Rightarrow> nat" where
  "low6 b = unat b mod 64"

fun decode_utf8 :: "bytes \<Rightarrow> str option" where
  \<comment> \<open>\<^verbatim>\<open>chunk.decode('utf-8')\<close>, strict; \<open>None\<close> is \<^verbatim>\<open>UnicodeDecodeError\<close>\<close>
  "decode_utf8 [] = Some []"
| "decode_utf8 (b # bs) =
     (let n = unat b in
      if n < 0x80 then map_option ((#) n) (decode_utf8 bs)
      else if 0xC2 \<le> n \<and> n < 0xE0 then
        (case bs of
           b1 # r \<Rightarrow>
             if continuation b1
             then map_option ((#) ((n mod 32) * 64 + low6 b1)) (decode_utf8 r)
             else None
         | _ \<Rightarrow> None)
      else if 0xE0 \<le> n \<and> n < 0xF0 then
        (case bs of
           b1 # b2 # r \<Rightarrow>
             if continuation b1 \<and> continuation b2
                \<and> (if n = 0xE0 then 0xA0 \<le> unat b1 else True)
                \<and> (if n = 0xED then unat b1 < 0xA0 else True)
             then map_option ((#) ((n mod 16) * 4096 + low6 b1 * 64 + low6 b2)) (decode_utf8 r)
             else None
         | _ \<Rightarrow> None)
      else if 0xF0 \<le> n \<and> n < 0xF5 then
        (case bs of
           b1 # b2 # b3 # r \<Rightarrow>
             if continuation b1 \<and> continuation b2 \<and> continuation b3
                \<and> (if n = 0xF0 then 0x90 \<le> unat b1 else True)
                \<and> (if n = 0xF4 then unat b1 < 0x90 else True)
             then map_option
                    ((#) ((n mod 8) * 262144 + low6 b1 * 4096 + low6 b2 * 64 + low6 b3))
                    (decode_utf8 r)
             else None
         | _ \<Rightarrow> None)
      else None)"

subsection \<open>Whitespace\<close>

definition isspace :: "nat \<Rightarrow> bool" where
  \<comment> \<open>the code points \<^verbatim>\<open>str.strip()\<close> removes\<close>
  "isspace c =
     ((9 \<le> c \<and> c \<le> 13) \<or> (28 \<le> c \<and> c \<le> 32) \<or> c = 0x85 \<or> c = 0xA0 \<or> c = 0x1680
      \<or> (0x2000 \<le> c \<and> c \<le> 0x200A) \<or> c = 0x2028 \<or> c = 0x2029 \<or> c = 0x202F
      \<or> c = 0x205F \<or> c = 0x3000)"

definition strip :: "str \<Rightarrow> str" where
  "strip s = rev (dropWhile isspace (rev (dropWhile isspace s)))"

section \<open>The socket\<close>

text \<open>
  A socket is the session's end of the connection. What the peer and the network do is
  scripted in it: \<open>send_script\<close> gives the outcome of each \<^verbatim>\<open>sendall\<close> in turn
  (\<open>None\<close> for success), \<open>recv_script\<close> what each \<^verbatim>\<open>recv\<close> call returns or
  raises. When a script is used up, \<^verbatim>\<open>sendall\<close> succeeds and \<^verbatim>\<open>recv\<close> returns
  \<^verbatim>\<open>b''\<close>, as it does once the peer has closed the connection.
\<close>

datatype recv_event = Recv bytes | RecvRaises exn

record sock =
  sock_timeout :: nat
  sent :: "bytes list"
  send_script :: "exn option list"
  recv_script :: "recv_event list"

definition settimeout :: "nat \<Rightarrow> sock \<Rightarrow> sock" where
  "settimeout t k = k\<lparr>sock_timeout := t\<rparr>"

definition sendall :: "sock \<Rightarrow> bytes \<Rightarrow> exn option \<times> sock" where
  "sendall k payload =
     (case send_script k of
        [] \<Rightarrow> (None, k\<lparr>sent := sent k @ [payload]\<rparr>)
      | None # rest \<Rightarrow> (None, k\<lparr>sent := sent k @ [payload], send_script := rest\<rparr>)
      | Some e # rest \<Rightarrow> (Some e, k\<lparr>send_script := rest\<rparr>))"

section \<open>Framed message codec: \<^verbatim>\<open>receive_full_response\<close>\<close>

definition has_newline :: "str \<Rightarrow> bool" where
  \<comment> \<open>\<^verbatim>\<open>'\n' in buffer\<close>\<close>
  "has_newline b = (newline \<in> set b)"

definition split_newline :: "str \<Rightarrow> str \<times> str" where
  \<comment> \<open>\<^verbatim>\<open>buffer.split('\n', 1)\<close> of a buffer that holds a newline\<close>
  "split_newline b =
     (takeWhile (\<lambda>c. c \<noteq> newline) b, drop 1 (dropWhile (\<lambda>c. c \<noteq> newline) b))"

definition is_heartbeat :: "json \<Rightarrow> bool" where
  \<comment> \<open>\<^verbatim>\<open>isinstance(message, dict) and message.get("type") == "heartbeat"\<close>\<close>
  "is_heartbeat m =
     (case m of JDict d \<Rightarrow> dict_get d ''type'' = JStr (ustr ''heartbeat'') | _ \<Rightarrow> False)"

text \<open>
  The inner loop \<^verbatim>\<open>while '\n' in buffer\<close> (lines 115 to 135): it returns a message
  (\<open>Message\<close>) or ends, by its condition or by \<^verbatim>\<open>break\<close>, with the buffer it leaves
  (\<open>Pending\<close>).
\<close>

datatype scan = Message json | Pending str

function process_buffer :: "pylib \<Rightarrow> str \<Rightarrow> scan" where
  "process_buffer lib buffer =
     (if has_newline buffer then
        (let raw_message = strip (fst (split_newline buffer));
             rest = snd (split_newline buffer)
         in if raw_message = [] then process_buffer lib rest
            else (case json_loads lib raw_message of
                    None \<Rightarrow> Pending (raw_message @ (if rest \<noteq> [] then newline # rest else []))
                  | Some message \<Rightarrow>
                      if is_heartbeat message then process_buffer lib rest
                      else Message message))
      else Pending buffer)"
  by pat_completeness auto
termination
proof (relation "measure (\<lambda>(lib, buffer). length buffer)")
  show "wf (measure (\<lambda>(lib, buffer). length buffer))" by simp
next
  fix lib :: pylib and buffer :: str and x :: str and xa :: str
  assume "has_newline buffer" "xa = snd (split_newline buffer)"
  then show "((lib, xa), (lib, buffer)) \<in> measure (\<lambda>(lib, buffer). length buffer)"
    by (induction buffer) (auto simp: has_newline_def split_newline_def intro: le_imp_less_Suc length_dropWhile_le)
next
  fix lib :: pylib and buffer :: str and x :: str and xa :: str and x2 :: json
  assume "has_newline buffer" "xa = snd (split_newline buffer)"
  then show "((lib, xa), (lib, buffer)) \<in> measure (\<lambda>(lib, buffer). length buffer)"
    by (induction buffer) (auto simp: has_newline_def split_newline_def intro: le_imp_less_Suc length_dropWhile_le)
qed

declare process_buffer.simps [simp del]

definition closed_error :: exn where
  "closed_error = Exception (ustr ''Connection closed before receiving a valid response'')"

definition timeout_error :: exn where
  "timeout_error = Exception (ustr ''Timeout receiving Unreal response'')"

definition parse_remaining :: "pylib \<Rightarrow> str \<Rightarrow> exn \<Rightarrow> exn + json" where
  \<comment> \<open>lines 138 to 146 and 149 to 156: one last parse of a buffer that is not blank\<close>
  "parse_remaining lib buffer failure =
     (if strip buffer \<noteq> [] then
        (case json_loads lib buffer of Some message \<Rightarrow> Inr message | None \<Rightarrow> Inl failure)
      else Inl failure)"

text \<open>
  The outer loop \<^verbatim>\<open>while True\<close> over the results of successive \<^verbatim>\<open>recv\<close> calls,
  with the handlers of the enclosing \<^verbatim>\<open>try\<close>. It returns the message or the exception
  raised, and the part of the script not yet read.
\<close>

fun receive_loop :: "pylib \<Rightarrow> str \<Rightarrow> recv_event list \<Rightarrow> (exn + json) \<times> recv_event list" where
  "receive_loop lib buffer [] = (parse_remaining lib buffer closed_error, [])"
| "receive_loop lib buffer (Recv chunk # events) =
     (if chunk = [] then (parse_remaining lib buffer closed_error, events)
      else (case decode_utf8 chunk of
              None \<Rightarrow> (Inl (UnicodeDecodeError (decode_error_str lib chunk)), events)
            | Some piece \<Rightarrow>
                (case process_buffer lib (buffer @ piece) of
                   Message message \<Rightarrow> (Inr message, events)
                 | Pending buffer' \<Rightarrow> receive_loop lib buffer' events)))"
| "receive_loop lib buffer (RecvRaises SocketTimeout # events) =
     (parse_remaining lib buffer timeout_error, events)"
| "receive_loop lib buffer (RecvRaises e # events) = (Inl e, events)"

definition receive_full_response :: "pylib \<Rightarrow> sock \<Rightarrow> (exn + json) \<times> sock" where
  "receive_full_response lib k =
     (let k1 = settimeout 10 k;
          (result, events) = receive_loop lib [] (recv_script k1)
      in (result, k1\<lparr>recv_script := events\<rparr>))"

section \<open>The session: class \<^verbatim>\<open>UnrealConnection\<close>\<close>

datatype thread = Thread (is_alive: bool)

text \<open>
  The fields of \<^verbatim>\<open>__init__\<close>. \<open>lock_held\<close> is the state of \<^verbatim>\<open>self.lock\<close>, a
  \<^verbatim>\<open>threading.Lock\<close>; \<open>heartbeat_stop\<close> is the flag of the \<^verbatim>\<open>threading.Event\<close>.
  In \<open>last_command_result\<close> and \<open>last_command_error\<close> Python's \<^verbatim>\<open>None\<close> is
  \<open>JNull\<close>.
\<close>

record session =
  socket :: "sock option"
  connected :: bool
  lock_held :: bool
  heartbeat_thread :: "thread option"
  heartbeat_stop :: bool
  heartbeat_interval :: real
  last_heartbeat :: "real option"
  last_command :: "str option"
  last_command_time :: "real option"
  last_command_result :: json
  last_command_error :: json

definition init_session :: "real \<Rightarrow> session" where
  \<comment> \<open>\<^verbatim>\<open>__init__\<close>; the argument is \<^verbatim>\<open>UNREAL_HEARTBEAT_INTERVAL\<close>\<close>
  "init_session interval =
     \<lparr>socket = None, connected = False, lock_held = False, heartbeat_thread = None,
      heartbeat_stop = False, heartbeat_interval = interval, last_heartbeat = None,
      last_command = None, last_command_time = None, last_command_result = JNull,
      last_command_error = JNull\<rparr>"

text \<open>
  What lies outside the session during one call: the library, the reading of
  \<^verbatim>\<open>time.time()\<close>, and what opening a connection to the configured host and port gives
  (lines 62 to 73): an exception, or the connected socket.
\<close>

record env =
  lib :: pylib
  now :: real
  peer :: "exn + sock"

text \<open>
  A call returns, or it waits for the lock. \<^verbatim>\<open>threading.Lock\<close> is not reentrant: a
  thread that acquires it while it is held waits until another thread releases it, so a
  thread that holds it and acquires it again never returns.
\<close>

datatype 'a outcome = Blocked | Returns 'a

definition with_lock ::
  "(session \<Rightarrow> ('a \<times> session) outcome) \<Rightarrow> session \<Rightarrow> ('a \<times> session) outcome" where
  \<comment> \<open>\<^verbatim>\<open>with self.lock:\<close>\<close>
  "with_lock body s =
     (if lock_held s then Blocked
      else (case body (s\<lparr>lock_held := True\<rparr>) of
              Blocked \<Rightarrow> Blocked
            | Returns (r, s') \<Rightarrow> Returns (r, s'\<lparr>lock_held := False\<rparr>)))"

definition thread_alive :: "session \<Rightarrow> bool" where
  \<comment> \<open>\<^verbatim>\<open>self.heartbeat_thread and self.heartbeat_thread.is_alive()\<close>\<close>
  "thread_alive s = (case heartbeat_thread s of None \<Rightarrow> False | Some t \<Rightarrow> is_alive t)"

definition start_heartbeat :: "session \<Rightarrow> session" where
  "start_heartbeat s =
     (if heartbeat_interval s \<le> 0 then s
      else if thread_alive s then s
      else s\<lparr>heartbeat_stop := False, heartbeat_thread := Some (Thread True)\<rparr>)"

definition stop_heartbeat :: "session \<Rightarrow> session" where
  "stop_heartbeat s =
     (if thread_alive s then s\<lparr>heartbeat_stop := True, heartbeat_thread := None\<rparr>
      else s\<lparr>heartbeat_thread := None\<rparr>)"

definition connect_locked :: "env \<Rightarrow> session \<Rightarrow> bool \<times> session" where
  \<comment> \<open>the body of \<^verbatim>\<open>connect\<close> under the lock (lines 57 to 88)\<close>
  "connect_locked e s =
     (if connected s \<and> socket s \<noteq> None then (True, s)
      else (case peer e of
              Inr k \<Rightarrow>
                (True, start_heartbeat (s\<lparr>socket := Some (settimeout 5 k), connected := True\<rparr>))
            | Inl err \<Rightarrow> (False, s\<lparr>connected := False, socket := None\<rparr>)))"

definition connect :: "env \<Rightarrow> session \<Rightarrow> (bool \<times> session) outcome" where
  "connect e s = with_lock (\<lambda>s1. Returns (connect_locked e s1)) s"

definition disconnect :: "session \<Rightarrow> (unit \<times> session) outcome" where
  "disconnect s =
     with_lock (\<lambda>s1. Returns ((), (stop_heartbeat s1)\<lparr>socket := None, connected := False\<rparr>)) s"

subsection \<open>\<^verbatim>\<open>send_command\<close>\<close>

definition command_obj :: "str \<Rightarrow> pydict option \<Rightarrow> json" where
  \<comment> \<open>lines 171 to 174; \<^verbatim>\<open>params or {}\<close>\<close>
  "command_obj command params =
     JDict [(ustr ''command'', JStr command),
            (ustr ''params'', JDict (case params of None \<Rightarrow> [] | Some p \<Rightarrow> p))]"

definition command_json :: "pylib \<Rightarrow> str \<Rightarrow> pydict option \<Rightarrow> str" where
  \<comment> \<open>line 177\<close>
  "command_json l command params = json_dumps l (command_obj command params) @ [newline]"

definition error_response :: "json \<Rightarrow> pydict" where
  \<comment> \<open>the canonical error shape\<close>
  "error_response description =
     [(ustr ''status'', JStr (ustr ''error'')), (ustr ''error'', description)]"

definition error_message :: "pydict \<Rightarrow> json" where
  \<comment> \<open>\<^verbatim>\<open>response.get("error") or response.get("message", "Unknown Unreal error")\<close>\<close>
  "error_message response =
     (if truthy (dict_get response ''error'') then dict_get response ''error''
      else dict_get_default response ''message'' (JStr (ustr ''Unknown Unreal error'')))"

definition normalize_response :: "bool \<Rightarrow> json \<Rightarrow> session \<Rightarrow> (exn + pydict) \<times> session" where
  \<comment> \<open>lines 194 to 215. With tracking, \<^verbatim>\<open>self.last_command_result\<close> is the response
      object itself, so the item added in line 200 shows in it.\<close>
  "normalize_response track response s =
     (case response of
        JDict d \<Rightarrow>
          if dict_get d ''status'' = JStr (ustr ''error'') then
            (let d' = (if dict_contains d ''error'' then d
                       else d @ [(ustr ''error'', error_message d)])
             in (Inr d',
                 if track
                 then s\<lparr>last_command_result := JDict d', last_command_error := error_message d\<rparr>
                 else s))
          else if dict_get d ''success'' = JBool False then
            (Inr (error_response (error_message d)),
             if track then s\<lparr>last_command_error := error_message d\<rparr> else s)
          else (Inr d, s)
      | _ \<Rightarrow> (Inl (no_attribute (type_name response) ''get''), s))"

definition track_response :: "env \<Rightarrow> bool \<Rightarrow> str \<Rightarrow> json \<Rightarrow> session \<Rightarrow> session" where
  \<comment> \<open>lines 185 to 189\<close>
  "track_response e track command response s =
     (if track
      then s\<lparr>last_command := Some command, last_command_time := Some (now e),
             last_command_result := response, last_command_error := JNull\<rparr>
      else s)"

definition transmit ::
  "env \<Rightarrow> str \<Rightarrow> pydict option \<Rightarrow> session \<Rightarrow> (exn + json) \<times> session" where
  \<comment> \<open>the write and the read, lines 171 to 182: the decoded reply or the exception raised.
      \<^verbatim>\<open>self.socket.sendall\<close> on a socket that is \<^verbatim>\<open>None\<close> raises
      \<^verbatim>\<open>AttributeError\<close>.\<close>
  "transmit e command params s =
     (case socket s of
        None \<Rightarrow> (Inl (no_attribute ''NoneType'' ''sendall''), s)
      | Some k \<Rightarrow>
          (case encode_utf8 (command_json (lib e) command params) of
             None \<Rightarrow>
               (Inl (UnicodeEncodeError
                       (encode_error_str (lib e) (command_json (lib e) command params))), s)
           | Some payload \<Rightarrow>
               (case sendall k payload of
                  (Some err, k1) \<Rightarrow> (Inl err, s\<lparr>socket := Some k1\<rparr>)
                | (None, k1) \<Rightarrow>
                    (case receive_full_response (lib e) k1 of
                       (result, k2) \<Rightarrow> (result, s\<lparr>socket := Some k2\<rparr>)))))"

definition try_exchange ::
  "env \<Rightarrow> str \<Rightarrow> pydict option \<Rightarrow> bool \<Rightarrow> session \<Rightarrow> (exn + pydict) \<times> session" where
  \<comment> \<open>the \<^verbatim>\<open>try\<close> block, lines 170 to 215: the response returned or the exception raised\<close>
  "try_exchange e command params track s =
     (case transmit e command params s of
        (Inl err, s1) \<Rightarrow> (Inl err, s1)
      | (Inr response, s1) \<Rightarrow>
          normalize_response track response (track_response e track command response s1))"

definition track_failure :: "env \<Rightarrow> bool \<Rightarrow> str \<Rightarrow> exn \<Rightarrow> session \<Rightarrow> session" where
  \<comment> \<open>lines 219 to 223\<close>
  "track_failure e track command err s =
     (if track
      then s\<lparr>last_command := Some command, last_command_time := Some (now e),
             last_command_result := JNull, last_command_error := JStr (str_exn err)\<rparr>
      else s)"

definition exchange ::
  "env \<Rightarrow> str \<Rightarrow> pydict option \<Rightarrow> bool \<Rightarrow> session \<Rightarrow> (exn + pydict option) \<times> session" where
  \<comment> \<open>the \<^verbatim>\<open>try\<close> statement with its handler \<^verbatim>\<open>except Exception as e\<close>, lines 169 to 234\<close>
  "exchange e command params track s =
     (case try_exchange e command params track s of
        (Inr response, s1) \<Rightarrow> (Inr (Some response), s1)
      | (Inl err, s1) \<Rightarrow>
          (Inr (Some (error_response (JStr (str_exn err)))),
           (track_failure e track command err s1)\<lparr>connected := False, socket := None\<rparr>))"

definition send_command_locked ::
  "env \<Rightarrow> str \<Rightarrow> pydict option \<Rightarrow> bool \<Rightarrow> session
     \<Rightarrow> ((exn + pydict option) \<times> session) outcome" where
  \<comment> \<open>the body of \<^verbatim>\<open>send_command\<close> under the lock, lines 164 to 234; the result is the
      value returned (\<open>None\<close> for Python's \<^verbatim>\<open>None\<close>) or the exception raised\<close>
  "send_command_locked e command params track s =
     (if \<not> connected s then
        (case connect e s of
           Blocked \<Rightarrow> Blocked
         | Returns (ok, s1) \<Rightarrow>
             if \<not> ok then Returns (Inr None, s1)
             else Returns (exchange e command params track s1))
      else Returns (exchange e command params track s))"

definition send_command ::
  "env \<Rightarrow> str \<Rightarrow> pydict option \<Rightarrow> bool \<Rightarrow> session
     \<Rightarrow> ((exn + pydict option) \<times> session) outcome" where
  "send_command e command params track s =
     with_lock (send_command_locked e command params track) s"

subsection \<open>The heartbeat loop\<close>

definition heartbeat_iteration :: "env \<Rightarrow> session \<Rightarrow> session outcome" where
  \<comment> \<open>one pass through the body of \<^verbatim>\<open>_loop\<close>, lines 247 to 253\<close>
  "heartbeat_iteration e s =
     (case send_command e (ustr ''ping'') (Some []) False s of
        Blocked \<Rightarrow> Blocked
      | Returns (Inr result, s1) \<Rightarrow> Returns (s1\<lparr>last_heartbeat := Some (now e)\<rparr>)
      | Returns (Inl hb_err, s1) \<Rightarrow> Returns (s1\<lparr>last_heartbeat := None\<rparr>))"

section \<open>Reply streams\<close>

text \<open>
  A reply stream is a sequence of lines, each ended by a newline. A heartbeat line is a
  line whose stripped text \<^verbatim>\<open>json.loads\<close> decodes to a heartbeat message; a response
  line decodes to a message that is no heartbeat.
\<close>

definition heartbeat_line :: "pylib \<Rightarrow> str \<Rightarrow> bool" where
  "heartbeat_line l line =
     (\<not> has_newline line \<and> strip line \<noteq> []
      \<and> (case json_loads l (strip line) of None \<Rightarrow> False | Some m \<Rightarrow> is_heartbeat m))"

definition response_line :: "pylib \<Rightarrow> str \<Rightarrow> json \<Rightarrow> bool" where
  "response_line l line m =
     (\<not> has_newline line \<and> strip line \<noteq> [] \<and> json_loads l (strip line) = Some m
      \<and> \<not> is_heartbeat m)"

definition frames :: "str list \<Rightarrow> str" where
  "frames ls = concat (map (\<lambda>line. line @ [newline]) ls)"

definition ascii_bytes :: "str \<Rightarrow> bytes" where
  \<comment> \<open>the octets of a text of code points below 128\<close>
  "ascii_bytes t = map of_nat t"

definition session_invariant :: "session \<Rightarrow> bool" where
  \<comment> \<open>the socket is non-null if and only if connected is true\<close>
  "session_invariant s = ((socket s \<noteq> None) = connected s)"

section \<open>Example data\<close>

text \<open>
  The documents of the examples below, with the values \<^verbatim>\<open>json.dumps\<close> and
  \<^verbatim>\<open>json.loads\<close> have at them. Code point 34 is the double quote.
\<close>

definition quoted :: "string \<Rightarrow> str" where
  "quoted s = [34] @ ustr s @ [34]"

definition ping_body :: str where
  "ping_body = quoted ''command'' @ ustr '': '' @ quoted ''ping'' @ ustr '', ''
     @ quoted ''params'' @ ustr '': {}''"

definition ping_text :: str where
  \<comment> \<open>\<^verbatim>\<open>{"command": "ping", "params": {}}\<close>\<close>
  "ping_text = 123 # ping_body @ [125]"

definition heartbeat_text :: str where
  \<comment> \<open>\<^verbatim>\<open>{"type": "heartbeat"}\<close>\<close>
  "heartbeat_text = ustr ''{'' @ quoted ''type'' @ ustr '': '' @ quoted ''heartbeat'' @ ustr ''}''"

definition heartbeat_message :: json where
  "heartbeat_message = JDict [(ustr ''type'', JStr (ustr ''heartbeat''))]"

definition success_text :: str where
  \<comment> \<open>\<^verbatim>\<open>{"status": "success", "actor": "Box1"}\<close>\<close>
  "success_text = ustr ''{'' @ quoted ''status'' @ ustr '': '' @ quoted ''success'' @ ustr '', ''
     @ quoted ''actor'' @ ustr '': '' @ quoted ''Box1'' @ ustr ''}''"

definition success_message :: json where
  "success_message =
     JDict [(ustr ''status'', JStr (ustr ''success'')), (ustr ''actor'', JStr (ustr ''Box1''))]"

definition status_error_text :: str where
  \<comment> \<open>\<^verbatim>\<open>{"status": "error", "error": "X"}\<close>\<close>
  "status_error_text = ustr ''{'' @ quoted ''status'' @ ustr '': '' @ quoted ''error'' @ ustr '', ''
     @ quoted ''error'' @ ustr '': '' @ quoted ''X'' @ ustr ''}''"

definition status_error_message :: json where
  "status_error_message =
     JDict [(ustr ''status'', JStr (ustr ''error'')), (ustr ''error'', JStr (ustr ''X''))]"

definition success_false_text :: str where
  \<comment> \<open>\<^verbatim>\<open>{"success": false, "message": "X"}\<close>\<close>
  "success_false_text = ustr ''{'' @ quoted ''success'' @ ustr '': false, ''
     @ quoted ''message'' @ ustr '': '' @ quoted ''X'' @ ustr ''}''"

definition success_false_message :: json where
  "success_false_message =
     JDict [(ustr ''success'', JBool False), (ustr ''message'', JStr (ustr ''X''))]"

definition list_text :: str where
  "list_text = ustr ''[1, 2]''"

definition list_message :: json where
  "list_message = JList [JInt 1, JInt 2]"

definition accent_text :: str where
  \<comment> \<open>\<^verbatim>\<open>{"a": "X"}\<close> with U+00E9, e with acute accent, for X\<close>
  "accent_text = ustr ''{'' @ quoted ''a'' @ ustr '': '' @ [34, 233, 34] @ ustr ''}''"

definition accent_message :: json where
  "accent_message = JDict [(ustr ''a'', JStr [233])]"

definition accent_head :: bytes where
  \<comment> \<open>the UTF-8 octets of the document up to the first octet of U+00E9\<close>
  "accent_head = ascii_bytes (ustr ''{'' @ quoted ''a'' @ ustr '': '' @ [34]) @ [0xC3]"

definition accent_tail :: bytes where
  \<comment> \<open>the second octet of U+00E9 and the rest of the line\<close>
  "accent_tail = [0xA9] @ ascii_bytes ([34] @ ustr ''}'' @ [newline])"

definition spawn_params :: pydict where
  "spawn_params = [(ustr ''name'', JStr (ustr ''Box1'')), (ustr ''type'', JStr (ustr ''Cube''))]"

definition spawn_body :: str where
  "spawn_body = quoted ''command'' @ ustr '': '' @ quoted ''spawn_actor'' @ ustr '', ''
     @ quoted ''params'' @ ustr '': {'' @ quoted ''name'' @ ustr '': '' @ quoted ''Box1''
     @ ustr '', '' @ quoted ''type'' @ ustr '': '' @ quoted ''Cube'' @ ustr ''}''"

definition spawn_text :: str where
  \<comment> \<open>\<^verbatim>\<open>{"command": "spawn_actor", "params": {"name": "Box1", "type": "Cube"}}\<close>\<close>
  "spawn_text = 123 # spawn_body @ [125]"

definition demo_documents :: "(str \<times> json) list" where
  "demo_documents =
     [(ping_text, command_obj (ustr ''ping'') (Some [])),
      (heartbeat_text, heartbeat_message),
      (success_text, success_message),
      (status_error_text, status_error_message),
      (success_false_text, success_false_message),
      (list_text, list_message),
      (accent_text, accent_message)]"

definition demo_dumps :: "json \<Rightarrow> str" where
  "demo_dumps v =
     (case filter (\<lambda>(t, w). w = v) demo_documents of [] \<Rightarrow> [] | (t, w) # rest \<Rightarrow> t)"

definition demo_lib :: pylib where
  "demo_lib =
     \<lparr>json_dumps = demo_dumps, json_loads = map_of demo_documents,
      decode_error_str =
        (\<lambda>c. [39] @ ustr ''utf-8'' @ [39] @ ustr '' codec can'' @ [39]
              @ ustr ''t decode byte 0xc3 in position 7: unexpected end of data''),
      encode_error_str = (\<lambda>t. ustr ''surrogates not allowed'')\<rparr>"

definition demo_env :: env where
  \<comment> \<open>the peer refuses connections\<close>
  "demo_env = \<lparr>lib = demo_lib, now = 1000, peer = Inl (OSError (ustr ''Connection refused''))\<rparr>"

definition spawn_lib :: pylib where
  \<comment> \<open>the library at the \<^verbatim>\<open>spawn_actor\<close> command\<close>
  "spawn_lib =
     \<lparr>json_dumps =
        (\<lambda>v. if v = command_obj (ustr ''spawn_actor'') (Some spawn_params) then spawn_text
             else []),
      json_loads = map_of [(spawn_text, command_obj (ustr ''spawn_actor'') (Some spawn_params))],
      decode_error_str = decode_error_str demo_lib,
      encode_error_str = encode_error_str demo_lib\<rparr>"

definition spawn_env :: env where
  "spawn_env = \<lparr>lib = spawn_lib, now = 1000, peer = Inl (OSError (ustr ''Connection refused''))\<rparr>"

definition demo_sock :: "exn option list \<Rightarrow> recv_event list \<Rightarrow> sock" where
  "demo_sock sends recvs =
     \<lparr>sock_timeout = 5, sent = [], send_script = sends, recv_script = recvs\<rparr>"

definition demo_session :: "sock \<Rightarrow> session" where
  \<comment> \<open>a session connected through the socket\<close>
  "demo_session k =
     (init_session 25)\<lparr>socket := Some k, connected := True,
                       heartbeat_thread := Some (Thread True)\<rparr>"

definition line_bytes :: "str \<Rightarrow> bytes" where
  \<comment> \<open>an ASCII document as the peer writes it: the text and a newline\<close>
  "line_bytes t = ascii_bytes (t @ [newline])"

section \<open>Basic facts\<close>

lemma ustr_eq_iff [simp]: "ustr a = ustr b \<longleftrightarrow> a = b"
  unfolding ustr_def by (rule inj_map_eq_map) (simp add: inj_on_def)

lemma transmit_lock:
  "transmit e c p (s\<lparr>lock_held := b\<rparr>) =
     (case transmit e c p s of (r, s1) \<Rightarrow> (r, s1\<lparr>lock_held := b\<rparr>))"
  by (simp add: transmit_def split: option.splits prod.splits)

lemma transmit_frame:
  "transmit e c p s = (r, s1) \<Longrightarrow>
     connected s1 = connected s \<and> (socket s1 = None) = (socket s = None)
     \<and> lock_held s1 = lock_held s
     \<and> last_command s1 = last_command s \<and> last_command_time s1 = last_command_time s
     \<and> last_command_result s1 = last_command_result s
     \<and> last_command_error s1 = last_command_error s
     \<and> last_heartbeat s1 = last_heartbeat s"
  by (auto simp: transmit_def split: option.splits prod.splits)

lemma transmit_Inr_socket:
  "transmit e c p s = (Inr v, s1) \<Longrightarrow> socket s1 \<noteq> None"
  by (auto simp: transmit_def split: option.splits prod.splits)

lemma normalize_frame:
  "normalize_response track v s = (r, s1) \<Longrightarrow>
     connected s1 = connected s \<and> socket s1 = socket s \<and> lock_held s1 = lock_held s
     \<and> last_command s1 = last_command s \<and> last_command_time s1 = last_command_time s
     \<and> last_heartbeat s1 = last_heartbeat s"
  by (auto simp: normalize_response_def Let_def split: json.splits if_splits)


lemma normalize_not_dict:
  "\<not> is_dict v \<Longrightarrow> normalize_response track v s = (Inl (no_attribute (type_name v) ''get''), s)"
  by (cases v) (simp_all add: normalize_response_def)

lemma send_command_connected:
  "connected s \<Longrightarrow> \<not> lock_held s \<Longrightarrow>
     send_command e c p t s =
       Returns (case exchange e c p t (s\<lparr>lock_held := True\<rparr>) of
                  (r, s1) \<Rightarrow> (r, s1\<lparr>lock_held := False\<rparr>))"
  by (simp add: send_command_def with_lock_def send_command_locked_def split: prod.splits)

lemma send_command_disconnected:
  "\<not> connected s \<Longrightarrow> send_command e c p t s = Blocked"
  by (simp add: send_command_def with_lock_def send_command_locked_def connect_def)

lemma send_command_lock_held:
  "lock_held s \<Longrightarrow> send_command e c p t s = Blocked"
  by (simp add: send_command_def with_lock_def)

lemma send_command_Returns:
  assumes "send_command e c p t s = Returns (r, s')"
  shows "connected s \<and> \<not> lock_held s
     \<and> (\<exists>s1. exchange e c p t (s\<lparr>lock_held := True\<rparr>) = (r, s1)
             \<and> s' = s1\<lparr>lock_held := False\<rparr>)"
proof -
  have c: "connected s"
    using assms send_command_disconnected [of s e c p t] by (cases "connected s") auto
  have l: "\<not> lock_held s"
    using assms send_command_lock_held [of s e c p t] by (cases "lock_held s") auto
  from assms show ?thesis
    unfolding send_command_connected [OF c l] using c l by (auto split: prod.splits)
qed

lemma exchange_fault:
  assumes "transmit e c p s = (Inl err, s1)"
  shows "exchange e c p t s =
           (Inr (Some (error_response (JStr (str_exn err)))),
            (track_failure e t c err s1)\<lparr>connected := False, socket := None\<rparr>)"
  using assms by (simp add: exchange_def try_exchange_def)

lemma exchange_reply:
  assumes "transmit e c p s = (Inr v, s1)"
  shows "exchange e c p t s =
           (case normalize_response t v (track_response e t c v s1) of
              (Inr d, s2) \<Rightarrow> (Inr (Some d), s2)
            | (Inl err, s2) \<Rightarrow>
                (Inr (Some (error_response (JStr (str_exn err)))),
                 (track_failure e t c err s2)\<lparr>connected := False, socket := None\<rparr>))"
  using assms by (simp add: exchange_def try_exchange_def split: prod.splits sum.splits)

lemma exchange_never_raises: "fst (exchange e c p t s) \<noteq> Inl x"
  by (simp add: exchange_def split: prod.splits sum.splits)

lemma send_command_never_raises: "send_command e c p t s \<noteq> Returns (Inl x, s')"
proof
  assume "send_command e c p t s = Returns (Inl x, s')"
  from send_command_Returns [OF this] exchange_never_raises [of e c p t "s\<lparr>lock_held := True\<rparr>" x]
  show False by auto
qed

lemma exchange_invariant:
  assumes "exchange e c p t s = (r, s')" and "connected s"
  shows "session_invariant s'"
proof (cases "transmit e c p s")
  case (Pair res s1)
  show ?thesis
  proof (cases res)
    case (Inl err)
    with Pair assms show ?thesis by (auto simp: exchange_fault session_invariant_def)
  next
    case (Inr v)
    with Pair have tr: "transmit e c p s = (Inr v, s1)" by simp
    from transmit_Inr_socket [OF tr] transmit_frame [OF tr] assms(2)
    have s1: "socket s1 \<noteq> None" "connected s1" by auto
    obtain res2 s2 where n: "normalize_response t v (track_response e t c v s1) = (res2, s2)"
      by (cases "normalize_response t v (track_response e t c v s1)")
    from normalize_frame [OF n] s1 have "socket s2 \<noteq> None" "connected s2"
      by (auto simp: track_response_def)
    with assms(1) n show ?thesis
      by (auto simp: exchange_reply [OF tr] session_invariant_def split: sum.splits)
  qed
qed



text \<open>A reply that reports no error is returned as it is, and the session stays connected.\<close>

lemma plain_reply_state:
  assumes "connected s" and "\<not> lock_held s"
    and "transmit e c p s = (Inr (JDict d), s1)"
    and "dict_get d ''status'' \<noteq> JStr (ustr ''error'')"
    and "dict_get d ''success'' \<noteq> JBool False"
  shows "\<exists>s'. send_command e c p t s = Returns (Inr (Some d), s') \<and> connected s'
              \<and> socket s' = socket s1"
proof -
  from assms(3)
  have "transmit e c p (s\<lparr>lock_held := True\<rparr>) = (Inr (JDict d), s1\<lparr>lock_held := True\<rparr>)"
    by (simp add: transmit_lock)
  from exchange_reply [OF this] transmit_frame [OF assms(3)]
  show ?thesis
    using assms(1,2,4,5)
    by (auto simp: send_command_connected normalize_response_def track_response_def)
qed

subsection \<open>Facts about the example data\<close>

lemma demo_env_simps [simp]:
  "lib demo_env = demo_lib" "now demo_env = 1000"
  "peer demo_env = Inl (OSError (ustr ''Connection refused''))"
  by (simp_all add: demo_env_def)

lemma demo_session_simps [simp]:
  "socket (demo_session k) = Some k" "connected (demo_session k)"
  "\<not> lock_held (demo_session k)"
  by (simp_all add: demo_session_def init_session_def)

lemmas demo_texts =
  ping_text_def ping_body_def heartbeat_text_def success_text_def status_error_text_def
  success_false_text_def list_text_def accent_text_def spawn_text_def spawn_body_def
  quoted_def ustr_def newline_def

lemmas demo_messages =
  heartbeat_message_def success_message_def status_error_message_def
  success_false_message_def list_message_def accent_message_def command_obj_def
  spawn_params_def

lemma demo_ping_json:
  "command_json demo_lib (ustr ''ping'') (Some []) = ping_text @ [newline]"
  by (simp add: command_json_def demo_lib_def demo_dumps_def demo_documents_def demo_messages)

lemma demo_ping_payload:
  "encode_utf8 (ping_text @ [newline]) = Some (line_bytes ping_text)"
  by (simp add: demo_texts line_bytes_def ascii_bytes_def encode_code_point_def)

lemmas receive_eval =
  receive_full_response_def settimeout_def process_buffer.simps has_newline_def
  split_newline_def strip_def isspace_def is_heartbeat_def dict_get_def parse_remaining_def
  line_bytes_def ascii_bytes_def demo_lib_def demo_documents_def demo_sock_def
  continuation_def low6_def

lemma demo_receive:
  "fst (receive_full_response demo_lib
          (demo_sock [] [Recv (line_bytes heartbeat_text), Recv (line_bytes success_text)]))
     = Inr success_message"
  "fst (receive_full_response demo_lib (demo_sock [] [Recv (line_bytes status_error_text)]))
     = Inr status_error_message"
  "fst (receive_full_response demo_lib (demo_sock [] [Recv (line_bytes success_false_text)]))
     = Inr success_false_message"
  "fst (receive_full_response demo_lib
          (demo_sock [] [Recv (line_bytes heartbeat_text), Recv (line_bytes list_text)]))
     = Inr list_message"
  "fst (receive_full_response demo_lib
          (demo_sock [] [RecvRaises (OSError (ustr ''Connection reset by peer''))]))
     = Inl (OSError (ustr ''Connection reset by peer''))"
  by (simp_all add: receive_eval demo_texts demo_messages)

lemma demo_transmit:
  "fst (transmit demo_env (ustr ''ping'') (Some []) (demo_session (demo_sock [] recvs)))
     = fst (receive_full_response demo_lib (demo_sock [] recvs))"
  by (simp add: transmit_def demo_ping_json demo_ping_payload sendall_def demo_sock_def
        receive_full_response_def settimeout_def split: prod.splits)

lemma demo_transmit_write_fault:
  "fst (transmit demo_env (ustr ''ping'') (Some []) (demo_session (demo_sock [Some err] recvs)))
     = Inl err"
  by (simp add: transmit_def demo_ping_json demo_ping_payload sendall_def demo_sock_def)

section \<open>Transport faults\<close>

text \<open>
  An exception raised by the write or by the read of the response is not propagated: on a
  connected session the call returns the mapping \<^verbatim>\<open>{"status": "error", "error": str(e)}\<close>
  and leaves the connected flag false and the socket \<^verbatim>\<open>None\<close>. From the session it
  leaves, no later call returns: \<^verbatim>\<open>send_command\<close> takes \<^verbatim>\<open>self.lock\<close> and, the
  session being disconnected, calls \<^verbatim>\<open>connect\<close>, which waits for the same lock.
\<close>

lemma fault_gives_error_mapping:
  assumes "connected s" and "\<not> lock_held s"
    and "transmit e command params s = (Inl err, s1)"
  shows "\<exists>s'. send_command e command params track s =
                 Returns (Inr (Some [(ustr ''status'', JStr (ustr ''error'')),
                                     (ustr ''error'', JStr (str_exn err))]), s')
              \<and> \<not> connected s' \<and> socket s' = None
              \<and> (\<forall>e2 c2 p2 t2. send_command e2 c2 p2 t2 s' = Blocked)"
proof -
  from assms(3)
  have "transmit e command params (s\<lparr>lock_held := True\<rparr>) = (Inl err, s1\<lparr>lock_held := True\<rparr>)"
    by (simp add: transmit_lock)
  from exchange_fault [OF this] show ?thesis
    using assms(1,2)
    by (simp add: send_command_connected send_command_disconnected track_failure_def
          error_response_def)
qed

text \<open>
  C2, the failing input. A connected session whose \<^verbatim>\<open>sendall\<close> raises
  \<^verbatim>\<open>OSError("Broken pipe")\<close>: \<^verbatim>\<open>send_command\<close> returns
  \<^verbatim>\<open>{"status": "error", "error": "Broken pipe"}\<close> and leaves the session disconnected
  with a null socket, as it should. The next call, with a peer that accepts the connection and
  answers, does not reconnect: it never returns.
\<close>

theorem fault_then_next_call_never_returns:
  "send_command demo_env (ustr ''ping'') (Some []) True
     (demo_session (demo_sock [Some (OSError (ustr ''Broken pipe''))] []))
     = Returns (Inr (Some [(ustr ''status'', JStr (ustr ''error'')),
                           (ustr ''error'', JStr (ustr ''Broken pipe''))]),
                (demo_session (demo_sock [] []))
                  \<lparr>socket := None, connected := False,
                   last_command := Some (ustr ''ping''), last_command_time := Some 1000,
                   last_command_result := JNull,
                   last_command_error := JStr (ustr ''Broken pipe'')\<rparr>)
   \<and> send_command (demo_env\<lparr>peer := Inr (demo_sock [] [Recv (line_bytes success_text)])\<rparr>)
       (ustr ''ping'') (Some []) True
       ((demo_session (demo_sock [] []))
          \<lparr>socket := None, connected := False,
           last_command := Some (ustr ''ping''), last_command_time := Some 1000,
           last_command_result := JNull,
           last_command_error := JStr (ustr ''Broken pipe'')\<rparr>)
     = Blocked"
proof -
  let ?bad = "demo_session (demo_sock [Some (OSError (ustr ''Broken pipe''))] [])"
  have "transmit demo_env (ustr ''ping'') (Some []) (?bad\<lparr>lock_held := True\<rparr>)
          = (Inl (OSError (ustr ''Broken pipe'')),
             (demo_session (demo_sock [] []))\<lparr>lock_held := True\<rparr>)"
    by (simp add: transmit_def demo_ping_json demo_ping_payload sendall_def)
       (simp add: demo_sock_def demo_session_def)
  from exchange_fault [OF this, of True]
  have "send_command demo_env (ustr ''ping'') (Some []) True ?bad
     = Returns (Inr (Some [(ustr ''status'', JStr (ustr ''error'')),
                           (ustr ''error'', JStr (ustr ''Broken pipe''))]),
                (demo_session (demo_sock [] []))
                  \<lparr>socket := None, connected := False,
                   last_command := Some (ustr ''ping''), last_command_time := Some 1000,
                   last_command_result := JNull,
                   last_command_error := JStr (ustr ''Broken pipe'')\<rparr>)"
    by (simp add: send_command_connected track_failure_def error_response_def
          demo_session_def init_session_def)
  then show ?thesis by (simp add: send_command_disconnected)
qed

text \<open>
  C10. When the reply that \<^verbatim>\<open>receive_full_response\<close> hands back is valid JSON but no
  mapping (a list, a string, a number, a boolean or \<^verbatim>\<open>null\<close>), \<^verbatim>\<open>send_command\<close>
  does not return that value: \<^verbatim>\<open>response.get\<close> raises \<^verbatim>\<open>AttributeError\<close>, the
  handler returns the mapping \<^verbatim>\<open>{"status": "error", "error": str(e)}\<close> with the
  description \<^verbatim>\<open>'<type>' object has no attribute 'get'\<close>, and the session is left
  disconnected with its socket discarded.
\<close>

theorem non_mapping_reply_gives_error_response:
  assumes "connected s" and "\<not> lock_held s"
    and "transmit e command params s = (Inr v, s1)"
    and "\<not> is_dict v"
  shows "\<exists>s'. send_command e command params track s =
                 Returns (Inr (Some [(ustr ''status'', JStr (ustr ''error'')),
                                     (ustr ''error'',
                                      JStr ([39] @ ustr (type_name v) @ [39]
                                            @ ustr '' object has no attribute ''
                                            @ [39] @ ustr ''get'' @ [39]))]), s')
              \<and> \<not> connected s' \<and> socket s' = None"
proof -
  from assms(3)
  have "transmit e command params (s\<lparr>lock_held := True\<rparr>) = (Inr v, s1\<lparr>lock_held := True\<rparr>)"
    by (simp add: transmit_lock)
  from exchange_reply [OF this] show ?thesis
    using assms(1,2,4)
    by (simp add: send_command_connected normalize_not_dict track_failure_def
          error_response_def no_attribute_def)
qed

theorem non_mapping_reply_gives_error_response_witness:
  "fst (transmit demo_env (ustr ''ping'') (Some [])
          (demo_session
             (demo_sock [] [Recv (line_bytes heartbeat_text), Recv (line_bytes list_text)])))
     = Inr (JList [JInt 1, JInt 2])
   \<and> (\<exists>s'. send_command demo_env (ustr ''ping'') (Some []) True
              (demo_session
                 (demo_sock [] [Recv (line_bytes heartbeat_text), Recv (line_bytes list_text)]))
            = Returns (Inr (Some [(ustr ''status'', JStr (ustr ''error'')),
                                  (ustr ''error'',
                                   JStr ([39] @ ustr ''list'' @ [39]
                                         @ ustr '' object has no attribute ''
                                         @ [39] @ ustr ''get'' @ [39]))]), s')
          \<and> \<not> connected s' \<and> socket s' = None)"
proof -
  let ?s = "demo_session
              (demo_sock [] [Recv (line_bytes heartbeat_text), Recv (line_bytes list_text)])"
  have f: "fst (transmit demo_env (ustr ''ping'') (Some []) ?s) = Inr list_message"
    by (simp add: demo_transmit demo_receive)
  then have t: "transmit demo_env (ustr ''ping'') (Some []) ?s
             = (Inr list_message, snd (transmit demo_env (ustr ''ping'') (Some []) ?s))"
    by (simp add: prod_eq_iff)
  have d: "\<not> is_dict list_message" by (simp add: list_message_def)
  show ?thesis
    using f non_mapping_reply_gives_error_response [OF _ _ t d, of True]
    by (simp add: list_message_def)
qed

section \<open>Error normalizer\<close>

lemma error_message_shapes:
  "error_message [(ustr ''success'', JBool False), (ustr ''message'', JStr x)] = JStr x"
  by (simp add: error_message_def dict_get_def dict_get_default_def)

text \<open>
  C3. For any error text \<open>x\<close>, the replies \<^verbatim>\<open>{"status": "error", "error": x}\<close> and
  \<^verbatim>\<open>{"success": false, "message": x}\<close> both come back from \<^verbatim>\<open>send_command\<close> as
  \<^verbatim>\<open>{"status": "error", "error": x}\<close>; and every reply whose status is not
  \<^verbatim>\<open>"error"\<close> and whose \<^verbatim>\<open>"success"\<close> is \<^verbatim>\<open>false\<close> is rewritten into the canonical
  shape with the text of its \<^verbatim>\<open>"error"\<close> or \<^verbatim>\<open>"message"\<close> item.
\<close>

theorem error_shapes_converge:
  assumes "connected s" and "\<not> lock_held s"
    and "transmit e command params s = (Inr (JDict d), s1)"
  shows "(d = [(ustr ''status'', JStr (ustr ''error'')), (ustr ''error'', JStr x)] \<longrightarrow>
            (\<exists>s'. send_command e command params track s =
                     Returns (Inr (Some [(ustr ''status'', JStr (ustr ''error'')),
                                         (ustr ''error'', JStr x)]), s')))
       \<and> (d = [(ustr ''success'', JBool False), (ustr ''message'', JStr x)] \<longrightarrow>
            (\<exists>s'. send_command e command params track s =
                     Returns (Inr (Some [(ustr ''status'', JStr (ustr ''error'')),
                                         (ustr ''error'', JStr x)]), s')))
       \<and> (dict_get d ''status'' \<noteq> JStr (ustr ''error'') \<and> dict_get d ''success'' = JBool False \<longrightarrow>
            (\<exists>s'. send_command e command params track s =
                     Returns (Inr (Some [(ustr ''status'', JStr (ustr ''error'')),
                                         (ustr ''error'', error_message d)]), s')))"
proof -
  from assms(3)
  have "transmit e command params (s\<lparr>lock_held := True\<rparr>)
          = (Inr (JDict d), s1\<lparr>lock_held := True\<rparr>)"
    by (simp add: transmit_lock)
  note ex = exchange_reply [OF this]
  have a: "d = [(ustr ''status'', JStr (ustr ''error'')), (ustr ''error'', JStr x)] \<Longrightarrow>
            \<exists>s'. send_command e command params track s =
                     Returns (Inr (Some [(ustr ''status'', JStr (ustr ''error'')),
                                         (ustr ''error'', JStr x)]), s')"
    using assms(1,2)
    by (simp add: send_command_connected ex normalize_response_def dict_get_def
          dict_contains_def Let_def)
  have b: "dict_get d ''status'' \<noteq> JStr (ustr ''error'') \<Longrightarrow> dict_get d ''success'' = JBool False \<Longrightarrow>
            \<exists>s'. send_command e command params track s =
                     Returns (Inr (Some [(ustr ''status'', JStr (ustr ''error'')),
                                         (ustr ''error'', error_message d)]), s')"
    using assms(1,2)
    by (simp add: send_command_connected ex normalize_response_def error_response_def)
  have c: "d = [(ustr ''success'', JBool False), (ustr ''message'', JStr x)] \<Longrightarrow>
            \<exists>s'. send_command e command params track s =
                     Returns (Inr (Some [(ustr ''status'', JStr (ustr ''error'')),
                                         (ustr ''error'', JStr x)]), s')"
    using b by (simp add: dict_get_def error_message_shapes)
  from a b c show ?thesis by blast
qed

theorem error_shapes_converge_witness:
  "fst (transmit demo_env (ustr ''ping'') (Some [])
          (demo_session (demo_sock [] [Recv (line_bytes status_error_text)])))
     = Inr (JDict [(ustr ''status'', JStr (ustr ''error'')), (ustr ''error'', JStr (ustr ''X''))])
   \<and> (\<exists>s'. send_command demo_env (ustr ''ping'') (Some []) True
              (demo_session (demo_sock [] [Recv (line_bytes status_error_text)]))
            = Returns (Inr (Some [(ustr ''status'', JStr (ustr ''error'')),
                                  (ustr ''error'', JStr (ustr ''X''))]), s'))
   \<and> fst (transmit demo_env (ustr ''ping'') (Some [])
          (demo_session (demo_sock [] [Recv (line_bytes success_false_text)])))
     = Inr (JDict [(ustr ''success'', JBool False), (ustr ''message'', JStr (ustr ''X''))])
   \<and> (\<exists>s'. send_command demo_env (ustr ''ping'') (Some []) True
              (demo_session (demo_sock [] [Recv (line_bytes success_false_text)]))
            = Returns (Inr (Some [(ustr ''status'', JStr (ustr ''error'')),
                                  (ustr ''error'', JStr (ustr ''X''))]), s'))"
proof -
  let ?a = "demo_session (demo_sock [] [Recv (line_bytes status_error_text)])"
  let ?b = "demo_session (demo_sock [] [Recv (line_bytes success_false_text)])"
  have fa: "fst (transmit demo_env (ustr ''ping'') (Some []) ?a) = Inr status_error_message"
    by (simp add: demo_transmit demo_receive)
  have fb: "fst (transmit demo_env (ustr ''ping'') (Some []) ?b) = Inr success_false_message"
    by (simp add: demo_transmit demo_receive)
  from fa have ta: "transmit demo_env (ustr ''ping'') (Some []) ?a
      = (Inr (JDict [(ustr ''status'', JStr (ustr ''error'')), (ustr ''error'', JStr (ustr ''X''))]),
         snd (transmit demo_env (ustr ''ping'') (Some []) ?a))"
    by (simp add: prod_eq_iff status_error_message_def)
  from fb have tb: "transmit demo_env (ustr ''ping'') (Some []) ?b
      = (Inr (JDict [(ustr ''success'', JBool False), (ustr ''message'', JStr (ustr ''X''))]),
         snd (transmit demo_env (ustr ''ping'') (Some []) ?b))"
    by (simp add: prod_eq_iff success_false_message_def)
  show ?thesis
    using fa fb error_shapes_converge [OF _ _ ta, of "ustr ''X''" True]
      error_shapes_converge [OF _ _ tb, of "ustr ''X''" True]
    by (simp add: status_error_message_def success_false_message_def)
qed

section \<open>Lifecycle\<close>

lemma connect_locked_result:
  assumes "connect_locked e s = (ok, s1)"
  shows "session_invariant s1 \<and> connected s1 = ok \<and> lock_held s1 = lock_held s
       \<and> last_command s1 = last_command s \<and> last_command_time s1 = last_command_time s
       \<and> last_command_result s1 = last_command_result s
       \<and> last_command_error s1 = last_command_error s"
  using assms
  by (auto simp: connect_locked_def session_invariant_def start_heartbeat_def
           split: if_splits sum.splits)

lemma connect_Returns:
  assumes "connect e s = Returns (ok, s')"
  shows "\<exists>s1. connect_locked e (s\<lparr>lock_held := True\<rparr>) = (ok, s1)
              \<and> s' = s1\<lparr>lock_held := False\<rparr>"
  using assms by (auto simp: connect_def with_lock_def split: if_splits prod.splits)

lemma connect_result:
  assumes "connect e s = Returns (ok, s')"
  shows "session_invariant s' \<and> connected s' = ok \<and> \<not> lock_held s'
       \<and> last_command s' = last_command s \<and> last_command_time s' = last_command_time s
       \<and> last_command_result s' = last_command_result s
       \<and> last_command_error s' = last_command_error s"
proof -
  from connect_Returns [OF assms] obtain s1 where
    c: "connect_locked e (s\<lparr>lock_held := True\<rparr>) = (ok, s1)" and s': "s' = s1\<lparr>lock_held := False\<rparr>"
    by blast
  from connect_locked_result [OF c] show ?thesis
    by (simp add: s' session_invariant_def)
qed

lemma send_command_locked_Returns:
  assumes "send_command_locked e c p t s = Returns (r, s')"
  shows "(connected s \<and> exchange e c p t s = (r, s'))
       \<or> (\<not> connected s \<and> connect e s = Returns (False, s') \<and> r = Inr None)
       \<or> (\<not> connected s \<and> (\<exists>s1. connect e s = Returns (True, s1) \<and> exchange e c p t s1 = (r, s')))"
  using assms
  by (auto simp: send_command_locked_def split: if_splits outcome.splits prod.splits)

lemma send_command_locked_invariant:
  assumes "send_command_locked e c p t s = Returns (r, s')"
  shows "session_invariant s'"
  using send_command_locked_Returns [OF assms]
  by (auto dest: exchange_invariant connect_result)


lemma normalize_dict:
  "\<exists>r s2. normalize_response t (JDict d) s = (Inr r, s2)"
  by (simp add: normalize_response_def Let_def)

lemma send_command_reply_dict:
  assumes "connected s" and "\<not> lock_held s"
    and "fst (transmit e c p s) = Inr (JDict d)"
  shows "\<exists>r s'. send_command e c p t s = Returns (Inr (Some r), s') \<and> connected s'"
proof -
  obtain s1 where tr: "transmit e c p s = (Inr (JDict d), s1)"
    using assms(3) by (cases "transmit e c p s") auto
  then have trl: "transmit e c p (s\<lparr>lock_held := True\<rparr>) = (Inr (JDict d), s1\<lparr>lock_held := True\<rparr>)"
    by (simp add: transmit_lock)
  from transmit_frame [OF tr] assms(1) have c1: "connected s1" by simp
  obtain r s2 where
    n: "normalize_response t (JDict d) (track_response e t c (JDict d) (s1\<lparr>lock_held := True\<rparr>))
          = (Inr r, s2)"
    using normalize_dict by blast
  from normalize_frame [OF n] c1 have "connected s2" by (simp add: track_response_def)
  then show ?thesis
    using assms(1,2) by (simp add: send_command_connected exchange_reply [OF trl] n)
qed

lemma send_command_fault_state:
  assumes "connected s" and "\<not> lock_held s"
    and "fst (transmit e c p s) = Inl err"
  shows "\<exists>r s'. send_command e c p t s = Returns (r, s') \<and> \<not> connected s'"
proof -
  obtain s1 where tr: "transmit e c p s = (Inl err, s1)"
    using assms(3) by (cases "transmit e c p s") auto
  then have "transmit e c p (s\<lparr>lock_held := True\<rparr>) = (Inl err, s1\<lparr>lock_held := True\<rparr>)"
    by (simp add: transmit_lock)
  from exchange_fault [OF this] show ?thesis
    using assms(1,2) by (simp add: send_command_connected)
qed

text \<open>
  C7. The invariant \<^emph>\<open>the socket is non-null if and only if connected is true\<close> holds
  for the initial session and at the return point of \<^verbatim>\<open>connect\<close> (success and failure),
  of \<^verbatim>\<open>disconnect\<close> and of \<^verbatim>\<open>send_command\<close> (success and error), whatever the session
  was before the call; the same holds for the body of \<^verbatim>\<open>send_command\<close> run with the lock
  available.
\<close>

theorem session_invariant_at_return:
  "session_invariant (init_session interval)
   \<and> (\<forall>ok s'. connect e s = Returns (ok, s') \<longrightarrow> session_invariant s')
   \<and> (\<forall>x s'. disconnect s = Returns (x, s') \<longrightarrow> session_invariant s')
   \<and> (\<forall>r s'. send_command e command params track s = Returns (r, s') \<longrightarrow> session_invariant s')
   \<and> (\<forall>r s'. send_command_locked e command params track s = Returns (r, s')
          \<longrightarrow> session_invariant s')"
proof (intro conjI allI impI)
  show "session_invariant (init_session interval)"
    by (simp add: session_invariant_def init_session_def)
next
  fix ok s' assume "connect e s = Returns (ok, s')"
  then show "session_invariant s'" by (simp add: connect_result)
next
  fix x s' assume "disconnect s = Returns (x, s')"
  then show "session_invariant s'"
    by (auto simp: disconnect_def with_lock_def session_invariant_def split: if_splits)
next
  fix r s' assume "send_command e command params track s = Returns (r, s')"
  from send_command_Returns [OF this] obtain s1 where
    "connected s" "exchange e command params track (s\<lparr>lock_held := True\<rparr>) = (r, s1)"
    "s' = s1\<lparr>lock_held := False\<rparr>"
    by blast
  with exchange_invariant [of e command params track "s\<lparr>lock_held := True\<rparr>" r s1]
  show "session_invariant s'" by (simp add: session_invariant_def)
next
  fix r s' assume "send_command_locked e command params track s = Returns (r, s')"
  then show "session_invariant s'" by (rule send_command_locked_invariant)
qed

theorem session_invariant_at_return_witness:
  "(\<exists>s'. connect demo_env (init_session 25) = Returns (False, s') \<and> session_invariant s')
   \<and> (\<exists>s'. connect (demo_env\<lparr>peer := Inr (demo_sock [] [])\<rparr>) (init_session 25)
              = Returns (True, s') \<and> session_invariant s')
   \<and> (\<exists>s'. disconnect (demo_session (demo_sock [] [])) = Returns ((), s')
            \<and> session_invariant s')
   \<and> (\<exists>r s'. send_command demo_env (ustr ''ping'') (Some []) True
                (demo_session (demo_sock [] [Recv (line_bytes heartbeat_text),
                                             Recv (line_bytes success_text)]))
              = Returns (r, s') \<and> connected s' \<and> session_invariant s')
   \<and> (\<exists>r s'. send_command demo_env (ustr ''ping'') (Some []) True
                (demo_session (demo_sock [Some (OSError (ustr ''Broken pipe''))] []))
              = Returns (r, s') \<and> \<not> connected s' \<and> session_invariant s')"
proof -
  let ?up = "demo_env\<lparr>peer := Inr (demo_sock [] [])\<rparr>"
  let ?ok = "demo_session (demo_sock [] [Recv (line_bytes heartbeat_text),
                                         Recv (line_bytes success_text)])"
  let ?bad = "demo_session (demo_sock [Some (OSError (ustr ''Broken pipe''))] [])"
  note inv = session_invariant_at_return
  have 1: "\<exists>s'. connect demo_env (init_session 25) = Returns (False, s')"
    by (simp add: connect_def with_lock_def connect_locked_def init_session_def)
  have 2: "\<exists>s'. connect ?up (init_session 25) = Returns (True, s')"
    by (simp add: connect_def with_lock_def connect_locked_def init_session_def)
  have 3: "\<exists>s'. disconnect (demo_session (demo_sock [] [])) = Returns ((), s')"
    by (simp add: disconnect_def with_lock_def)
  have "fst (transmit demo_env (ustr ''ping'') (Some []) ?ok) = Inr success_message"
    by (simp add: demo_transmit demo_receive)
  then have 4: "\<exists>r s'. send_command demo_env (ustr ''ping'') (Some []) True ?ok
                   = Returns (Inr (Some r), s') \<and> connected s'"
    by (intro send_command_reply_dict) (simp_all add: success_message_def)
  have "fst (transmit demo_env (ustr ''ping'') (Some []) ?bad) = Inl (OSError (ustr ''Broken pipe''))"
    by (simp add: demo_transmit_write_fault)
  then have 5: "\<exists>r s'. send_command demo_env (ustr ''ping'') (Some []) True ?bad = Returns (r, s')
              \<and> \<not> connected s'"
    by (intro send_command_fault_state) simp_all
  from 1 inv [of 25 demo_env "init_session 25"]
  have a: "\<exists>s'. connect demo_env (init_session 25) = Returns (False, s') \<and> session_invariant s'"
    by blast
  from 2 inv [of 25 ?up "init_session 25"]
  have b: "\<exists>s'. connect ?up (init_session 25) = Returns (True, s') \<and> session_invariant s'"
    by blast
  from 3 inv [of 25 demo_env "demo_session (demo_sock [] [])"]
  have c: "\<exists>s'. disconnect (demo_session (demo_sock [] [])) = Returns ((), s')
             \<and> session_invariant s'"
    by blast
  from 4 inv [of 25 demo_env ?ok "ustr ''ping''" "Some []" True]
  have d: "\<exists>r s'. send_command demo_env (ustr ''ping'') (Some []) True ?ok = Returns (r, s')
             \<and> connected s' \<and> session_invariant s'"
    by blast
  from 5 inv [of 25 demo_env ?bad "ustr ''ping''" "Some []" True]
  have e: "\<exists>r s'. send_command demo_env (ustr ''ping'') (Some []) True ?bad = Returns (r, s')
             \<and> \<not> connected s' \<and> session_invariant s'"
    by blast
  from a b c d e show ?thesis by blast
qed

section \<open>Diagnostic tracking\<close>



section \<open>\<^verbatim>\<open>send_command\<close> on a disconnected session\<close>

text \<open>
  C1, the failing input. \<^verbatim>\<open>send_command\<close> on the initial, disconnected session, with a
  peer that refuses the connection. The call holds \<^verbatim>\<open>self.lock\<close> (line 163) when it
  calls \<^verbatim>\<open>connect\<close> (line 165), which acquires the same lock (line 56): the connection
  attempt never starts and the call never returns, neither an error response nor anything
  else. The same happens with a peer that accepts the connection.
\<close>

theorem send_command_disconnected_never_returns:
  "connect demo_env ((init_session 25)\<lparr>lock_held := True\<rparr>) = Blocked
   \<and> send_command demo_env (ustr ''spawn_actor'') (Some spawn_params) True (init_session 25)
       = Blocked
   \<and> send_command (demo_env\<lparr>peer := Inr (demo_sock [] [Recv (line_bytes success_text)])\<rparr>)
       (ustr ''spawn_actor'') (Some spawn_params) True (init_session 25)
       = Blocked"
  by (simp add: send_command_def send_command_locked_def connect_def with_lock_def
        init_session_def)

section \<open>Heartbeat loop\<close>

lemma heartbeat_iteration_records:
  assumes "heartbeat_iteration e s = Returns s'"
  shows "last_heartbeat s' = Some (now e)"
proof (cases "send_command e (ustr ''ping'') (Some []) False s")
  case Blocked
  with assms show ?thesis by (simp add: heartbeat_iteration_def)
next
  case (Returns rs)
  obtain r s1 where rs: "rs = (r, s1)" by (cases rs)
  with Returns send_command_never_raises [of e "ustr ''ping''" "Some []" False s]
  obtain v where "r = Inr v" by (cases r) auto
  with Returns rs assms show ?thesis by (auto simp: heartbeat_iteration_def)
qed

lemma heartbeat_iteration_state:
  assumes "heartbeat_iteration e s = Returns s'"
  shows "\<exists>r s1. send_command e (ustr ''ping'') (Some []) False s = Returns (r, s1)
           \<and> connected s' = connected s1 \<and> socket s' = socket s1"
  using assms
  by (auto simp: heartbeat_iteration_def split: outcome.splits prod.splits sum.splits)

text \<open>
  C8, the failing input. A heartbeat pass on a connected session whose \<^verbatim>\<open>sendall\<close> raises
  \<^verbatim>\<open>OSError("Broken pipe")\<close>: the ping fails (\<^verbatim>\<open>send_command\<close> returns the error response
  and resets the connection), and the pass still records the time in \<^verbatim>\<open>last_heartbeat\<close>
  instead of clearing it, because \<^verbatim>\<open>send_command\<close> raises nothing for the handler in
  \<^verbatim>\<open>_loop\<close> to catch.
\<close>

theorem heartbeat_failed_ping_records_timestamp:
  "send_command demo_env (ustr ''ping'') (Some []) False
     (demo_session (demo_sock [Some (OSError (ustr ''Broken pipe''))] []))
     = Returns (Inr (Some (error_response (JStr (ustr ''Broken pipe'')))),
                (demo_session (demo_sock [] []))\<lparr>connected := False, socket := None\<rparr>)
   \<and> heartbeat_iteration demo_env
       (demo_session (demo_sock [Some (OSError (ustr ''Broken pipe''))] []))
     = Returns ((demo_session (demo_sock [] []))
                  \<lparr>connected := False, socket := None, last_heartbeat := Some 1000\<rparr>)"
proof -
  let ?bad = "demo_session (demo_sock [Some (OSError (ustr ''Broken pipe''))] [])"
  have "transmit demo_env (ustr ''ping'') (Some []) (?bad\<lparr>lock_held := True\<rparr>)
          = (Inl (OSError (ustr ''Broken pipe'')),
             (demo_session (demo_sock [] []))\<lparr>lock_held := True\<rparr>)"
    by (simp add: transmit_def demo_ping_json demo_ping_payload sendall_def)
       (simp add: demo_sock_def demo_session_def)
  from exchange_fault [OF this, of False]
  have s: "send_command demo_env (ustr ''ping'') (Some []) False ?bad
     = Returns (Inr (Some (error_response (JStr (ustr ''Broken pipe'')))),
                (demo_session (demo_sock [] []))\<lparr>connected := False, socket := None\<rparr>)"
    by (simp add: send_command_connected track_failure_def)
  then show ?thesis by (simp add: heartbeat_iteration_def)
qed

section \<open>Framed message codec\<close>

lemma frames_simps [simp]:
  "frames [] = []" "frames (line # ls) = line @ newline # frames ls"
  by (simp_all add: frames_def)

lemma frames_no_newline: "\<not> has_newline (frames hs) \<Longrightarrow> frames hs = []"
  by (cases hs) (simp_all add: has_newline_def)

lemma split_newline_line:
  assumes "\<not> has_newline line"
  shows "split_newline (line @ newline # rest) = (line, rest)"
proof -
  from assms have "\<forall>c \<in> set line. c \<noteq> newline" by (auto simp: has_newline_def)
  then show ?thesis
    by (simp add: split_newline_def takeWhile_append2 dropWhile_append2)
qed

lemma process_buffer_no_newline:
  "\<not> has_newline b \<Longrightarrow> process_buffer l b = Pending b"
  by (subst process_buffer.simps) simp

lemma process_buffer_heartbeat:
  assumes "heartbeat_line l line"
  shows "process_buffer l (line @ newline # rest) = process_buffer l rest"
proof -
  from assms have nl: "\<not> has_newline line" by (simp add: heartbeat_line_def)
  have h: "has_newline (line @ newline # rest)" by (simp add: has_newline_def)
  show ?thesis
    using assms
    by (subst process_buffer.simps)
       (auto simp: h split_newline_line [OF nl] heartbeat_line_def Let_def split: option.splits)
qed

lemma process_buffer_response:
  assumes "response_line l line m"
  shows "process_buffer l (line @ newline # rest) = Message m"
proof -
  from assms have nl: "\<not> has_newline line" by (simp add: response_line_def)
  have h: "has_newline (line @ newline # rest)" by (simp add: has_newline_def)
  show ?thesis
    using assms
    by (subst process_buffer.simps)
       (auto simp: h split_newline_line [OF nl] response_line_def Let_def)
qed

text \<open>Where a stream that starts with a line is cut in two.\<close>

lemma prefix_of_line:
  assumes "x @ y = line @ newline # rest" and "\<not> has_newline line"
  shows "(\<not> has_newline x \<and> y \<noteq> []) \<or> (\<exists>x'. x = line @ newline # x' \<and> x' @ y = rest)"
proof -
  from assms(1) consider
    (short) z where "line = x @ z" "y = z @ newline # rest"
    | (long) z where "x = line @ z" "z @ y = newline # rest"
    by (auto simp: append_eq_append_conv2)
  then show ?thesis
  proof cases
    case short
    with assms(2) show ?thesis by (auto simp: has_newline_def)
  next
    case long
    show ?thesis
    proof (cases z)
      case Nil
      with long assms(2) show ?thesis by (auto simp: has_newline_def)
    next
      case (Cons c z')
      with long show ?thesis by auto
    qed
  qed
qed

lemma process_buffer_prefix:
  assumes "list_all (heartbeat_line l) hs" and "response_line l r m"
    and "x @ y = frames hs @ r @ [newline]"
  shows "(y = [] \<and> process_buffer l x = Message m)
       \<or> (y \<noteq> [] \<and> (\<exists>b hs'. process_buffer l x = Pending b \<and> \<not> has_newline b
                \<and> list_all (heartbeat_line l) hs' \<and> b @ y = frames hs' @ r @ [newline]))"
  using assms
proof (induction hs arbitrary: x)
  case Nil
  then have eq: "x @ y = r @ newline # []" by simp
  from Nil.prems(2) have nl: "\<not> has_newline r" by (simp add: response_line_def)
  from prefix_of_line [OF eq nl] show ?case
  proof
    assume a: "\<not> has_newline x \<and> y \<noteq> []"
    then have "process_buffer l x = Pending x" by (simp add: process_buffer_no_newline)
    with a Nil.prems show ?thesis by (intro disjI2) (auto intro!: exI [of _ "[]"])
  next
    assume "\<exists>x'. x = r @ newline # x' \<and> x' @ y = []"
    then have "x = r @ newline # []" "y = []" by auto
    then show ?thesis using Nil.prems(2) by (simp add: process_buffer_response)
  qed
next
  case (Cons h hs)
  then have eq: "x @ y = h @ newline # (frames hs @ r @ [newline])" by simp
  from Cons.prems(1) have hb: "heartbeat_line l h" and rest: "list_all (heartbeat_line l) hs"
    by simp_all
  then have nl: "\<not> has_newline h" by (simp add: heartbeat_line_def)
  from prefix_of_line [OF eq nl] show ?case
  proof
    assume a: "\<not> has_newline x \<and> y \<noteq> []"
    then have "process_buffer l x = Pending x" by (simp add: process_buffer_no_newline)
    with a Cons.prems show ?thesis by (intro disjI2) (auto intro!: exI [of _ "h # hs"])
  next
    assume "\<exists>x'. x = h @ newline # x' \<and> x' @ y = frames hs @ r @ [newline]"
    then obtain x' where x: "x = h @ newline # x'" and x': "x' @ y = frames hs @ r @ [newline]"
      by blast
    from Cons.IH [OF rest Cons.prems(2) x'] show ?thesis
      by (simp add: x process_buffer_heartbeat [OF hb])
  qed
qed

lemma process_buffer_heartbeats_prefix:
  assumes "list_all (heartbeat_line l) hs" and "x @ y = frames hs"
  shows "\<exists>b hs'. process_buffer l x = Pending b \<and> \<not> has_newline b
            \<and> list_all (heartbeat_line l) hs' \<and> b @ y = frames hs'"
  using assms
proof (induction hs arbitrary: x)
  case Nil
  then have "x = []" "y = []" by simp_all
  then show ?case
    by (auto simp: process_buffer_no_newline has_newline_def intro!: exI [of _ "[]"])
next
  case (Cons h hs)
  then have eq: "x @ y = h @ newline # frames hs" by simp
  from Cons.prems(1) have hb: "heartbeat_line l h" and rest: "list_all (heartbeat_line l) hs"
    by simp_all
  then have nl: "\<not> has_newline h" by (simp add: heartbeat_line_def)
  from prefix_of_line [OF eq nl] show ?case
  proof
    assume a: "\<not> has_newline x \<and> y \<noteq> []"
    then have "process_buffer l x = Pending x" by (simp add: process_buffer_no_newline)
    with a Cons.prems show ?thesis by (auto intro!: exI [of _ "h # hs"])
  next
    assume "\<exists>x'. x = h @ newline # x' \<and> x' @ y = frames hs"
    then obtain x' where x: "x = h @ newline # x'" and x': "x' @ y = frames hs"
      by blast
    from Cons.IH [OF rest x'] show ?thesis
      by (simp add: x process_buffer_heartbeat [OF hb])
  qed
qed

lemma decode_utf8_nonempty: "decode_utf8 c = Some [] \<Longrightarrow> c = []"
  by (cases c) (auto simp: Let_def split: if_splits list.splits)

text \<open>
  The receive loop over a stream of heartbeat lines and one response line, cut into chunks
  at any character boundaries.
\<close>

lemma receive_loop_frames:
  assumes "list_all2 (\<lambda>c t. c \<noteq> [] \<and> decode_utf8 c = Some t) chunks pieces"
    and "list_all (heartbeat_line l) hs" and "response_line l r m"
    and "\<not> has_newline buffer"
    and "buffer @ concat pieces = frames hs @ r @ [newline]"
  shows "receive_loop l buffer (map Recv chunks @ later) = (Inr m, later)"
  using assms
proof (induction chunks pieces arbitrary: buffer hs rule: list_all2_induct)
  case Nil
  then have "has_newline buffer" by (simp add: has_newline_def)
  with Nil show ?case by simp
next
  case (Cons c chunks t pieces)
  from Cons.hyps(1) have c: "c \<noteq> []" "decode_utf8 c = Some t" by simp_all
  from Cons.prems(4) have eq: "(buffer @ t) @ concat pieces = frames hs @ r @ [newline]" by simp
  from process_buffer_prefix [OF Cons.prems(1,2) eq] show ?case
  proof
    assume a: "concat pieces = [] \<and> process_buffer l (buffer @ t) = Message m"
    have "chunks = []"
    proof (rule ccontr)
      assume "chunks \<noteq> []"
      with Cons.hyps(2) obtain c' t' cs' ps' where "chunks = c' # cs'" "pieces = t' # ps'"
          "c' \<noteq> []" "decode_utf8 c' = Some t'"
        by (cases chunks; cases pieces) auto
      with a show False using decode_utf8_nonempty by auto
    qed
    with a c show ?thesis by simp
  next
    assume "concat pieces \<noteq> [] \<and> (\<exists>b hs'. process_buffer l (buffer @ t) = Pending b
                \<and> \<not> has_newline b \<and> list_all (heartbeat_line l) hs'
                \<and> b @ concat pieces = frames hs' @ r @ [newline])"
    then obtain b hs' where b: "process_buffer l (buffer @ t) = Pending b" "\<not> has_newline b"
       "list_all (heartbeat_line l) hs'" "b @ concat pieces = frames hs' @ r @ [newline]"
      by blast
    from Cons.IH [OF b(3) Cons.prems(2) b(2) b(4)] show ?thesis
      using c b(1) by simp
  qed
qed

lemma receive_loop_heartbeats:
  assumes "list_all2 (\<lambda>c t. c \<noteq> [] \<and> decode_utf8 c = Some t) chunks pieces"
    and "list_all (heartbeat_line l) hs"
    and "\<not> has_newline buffer"
    and "buffer @ concat pieces = frames hs"
  shows "receive_loop l buffer (map Recv chunks @ later) = receive_loop l [] later"
  using assms
proof (induction chunks pieces arbitrary: buffer hs rule: list_all2_induct)
  case Nil
  then have "frames hs = []" "buffer = []" using frames_no_newline [of hs] by auto
  then show ?case by simp
next
  case (Cons c chunks t pieces)
  from Cons.hyps(1) have c: "c \<noteq> []" "decode_utf8 c = Some t" by simp_all
  from Cons.prems(3) have eq: "(buffer @ t) @ concat pieces = frames hs" by simp
  from process_buffer_heartbeats_prefix [OF Cons.prems(1) eq]
  obtain b hs' where b: "process_buffer l (buffer @ t) = Pending b" "\<not> has_newline b"
       "list_all (heartbeat_line l) hs'" "b @ concat pieces = frames hs'"
    by blast
  from Cons.IH [OF b(3) b(2) b(4)] show ?case
    using c b(1) by simp
qed

lemma receive_full_response_script:
  assumes "recv_script k = events"
  shows "receive_full_response l k =
           (fst (receive_loop l [] events),
            (settimeout 10 k)\<lparr>recv_script := snd (receive_loop l [] events)\<rparr>)"
  using assms by (simp add: receive_full_response_def settimeout_def split: prod.splits)

text \<open>
  For a reply stream of any number of complete heartbeat lines followed by one response line,
  received in chunks that each decode, \<^verbatim>\<open>receive_full_response\<close> returns the message
  of the response line. When the stream holds complete heartbeat lines only, the loop consumes
  them all and goes on until the peer closes the connection or a \<^verbatim>\<open>recv\<close> times out;
  it raises then.
\<close>

lemma complete_heartbeat_lines_are_skipped:
  assumes "list_all (heartbeat_line l) hs"
    and "list_all2 (\<lambda>c t. c \<noteq> [] \<and> decode_utf8 c = Some t) chunks pieces"
    and "recv_script k = map Recv chunks @ later"
  shows "(response_line l r m \<and> concat pieces = frames hs @ r @ [newline] \<longrightarrow>
            receive_full_response l k = (Inr m, (settimeout 10 k)\<lparr>recv_script := later\<rparr>)
            \<and> \<not> is_heartbeat m)
       \<and> (concat pieces = frames hs \<and> later = [] \<longrightarrow>
            fst (receive_full_response l k) = Inl closed_error)
       \<and> (concat pieces = frames hs \<and> later = [Recv []] \<longrightarrow>
            fst (receive_full_response l k) = Inl closed_error)
       \<and> (concat pieces = frames hs \<and> later = [RecvRaises SocketTimeout] \<longrightarrow>
            fst (receive_full_response l k) = Inl timeout_error)"
proof -
  have e: "\<not> has_newline []" by (simp add: has_newline_def)
  have a: "receive_full_response l k = (Inr m, (settimeout 10 k)\<lparr>recv_script := later\<rparr>)
            \<and> \<not> is_heartbeat m"
    if "response_line l r m \<and> concat pieces = frames hs @ r @ [newline]"
  proof -
    from that have "[] @ concat pieces = frames hs @ r @ [newline]" by simp
    from receive_loop_frames [OF assms(2,1) _ e this, of m later] that
    show ?thesis
      by (simp add: receive_full_response_script [OF assms(3)] response_line_def)
  qed
  have b: "receive_loop l [] (map Recv chunks @ later) = receive_loop l [] later"
    if "concat pieces = frames hs"
  proof -
    from that have "[] @ concat pieces = frames hs" by simp
    from receive_loop_heartbeats [OF assms(2,1) e this] show ?thesis .
  qed
  have s: "strip [] = []" by (simp add: strip_def)
  from a b show ?thesis
    by (auto simp: receive_full_response_script [OF assms(3)] parse_remaining_def s)
qed

lemmas line_eval =
  heartbeat_line_def response_line_def has_newline_def strip_def isspace_def is_heartbeat_def
  dict_get_def demo_lib_def demo_documents_def

lemma demo_lines:
  "heartbeat_line demo_lib heartbeat_text"
  "response_line demo_lib success_text success_message"
  by (simp_all add: line_eval demo_texts demo_messages)

lemma complete_heartbeat_lines_example:
  "list_all (heartbeat_line demo_lib) [heartbeat_text, heartbeat_text]
   \<and> response_line demo_lib success_text success_message
   \<and> receive_full_response demo_lib
        (demo_sock []
           [Recv (ascii_bytes (heartbeat_text @ [newline] @ ustr ''{'' @ quoted ''type'')),
            Recv (ascii_bytes (ustr '': '' @ quoted ''heartbeat'' @ ustr ''}'' @ [newline]
                               @ success_text @ [newline])),
            Recv (line_bytes heartbeat_text)])
      = (Inr success_message,
         (settimeout 10 (demo_sock [] []))\<lparr>recv_script := [Recv (line_bytes heartbeat_text)]\<rparr>)
   \<and> \<not> is_heartbeat success_message
   \<and> fst (receive_full_response demo_lib
             (demo_sock [] [Recv (line_bytes heartbeat_text), Recv (line_bytes heartbeat_text)]))
      = Inl (Exception (ustr ''Connection closed before receiving a valid response''))
   \<and> fst (receive_full_response demo_lib
             (demo_sock [] [Recv (line_bytes heartbeat_text), RecvRaises SocketTimeout]))
      = Inl (Exception (ustr ''Timeout receiving Unreal response''))"
proof -
  let ?t1 = "heartbeat_text @ [newline] @ ustr ''{'' @ quoted ''type''"
  let ?t2 = "ustr '': '' @ quoted ''heartbeat'' @ ustr ''}'' @ [newline] @ success_text @ [newline]"
  let ?later = "[Recv (line_bytes heartbeat_text)]"
  let ?k = "demo_sock [] ([Recv (ascii_bytes ?t1), Recv (ascii_bytes ?t2)] @ ?later)"
  have hs: "list_all (heartbeat_line demo_lib) [heartbeat_text, heartbeat_text]"
    by (simp add: demo_lines)
  have one: "list_all (heartbeat_line demo_lib) [heartbeat_text]"
    by (simp add: demo_lines)
  have ch: "list_all2 (\<lambda>c t. c \<noteq> [] \<and> decode_utf8 c = Some t)
              [ascii_bytes ?t1, ascii_bytes ?t2] [?t1, ?t2]"
    by (simp add: ascii_bytes_def demo_texts)
  have ch1: "list_all2 (\<lambda>c t. c \<noteq> [] \<and> decode_utf8 c = Some t)
              [line_bytes heartbeat_text] [heartbeat_text @ [newline]]"
    by (simp add: line_bytes_def ascii_bytes_def demo_texts)
  have cat: "concat [?t1, ?t2] = frames [heartbeat_text, heartbeat_text] @ success_text @ [newline]"
    by (simp add: heartbeat_text_def)
  have cat1: "concat [heartbeat_text @ [newline]] = frames [heartbeat_text]"
    by simp
  have sc: "recv_script ?k = map Recv [ascii_bytes ?t1, ascii_bytes ?t2] @ ?later"
    by (simp add: demo_sock_def)
  have sc1: "recv_script (demo_sock [] [Recv (line_bytes heartbeat_text), ev])
               = map Recv [line_bytes heartbeat_text] @ [ev]" for ev
    by (simp add: demo_sock_def)
  have sc2: "recv_script (demo_sock [] [Recv (line_bytes heartbeat_text)])
               = map Recv [line_bytes heartbeat_text] @ []"
    by (simp add: demo_sock_def)
  have a: "receive_full_response demo_lib ?k
      = (Inr success_message, (settimeout 10 ?k)\<lparr>recv_script := ?later\<rparr>)
      \<and> \<not> is_heartbeat success_message"
    using complete_heartbeat_lines_are_skipped [OF hs ch sc] demo_lines(2) cat
    by blast
  have b: "fst (receive_full_response demo_lib
             (demo_sock [] [Recv (line_bytes heartbeat_text), RecvRaises SocketTimeout]))
      = Inl timeout_error"
    using complete_heartbeat_lines_are_skipped [OF one ch1 sc1 [of "RecvRaises SocketTimeout"]] cat1 by blast
  have c: "fst (receive_full_response demo_lib
             (demo_sock [] [Recv (line_bytes heartbeat_text), Recv (line_bytes heartbeat_text)]))
      = Inl closed_error"
  proof -
    have ch2: "list_all2 (\<lambda>c t. c \<noteq> [] \<and> decode_utf8 c = Some t)
              [line_bytes heartbeat_text, line_bytes heartbeat_text]
              [heartbeat_text @ [newline], heartbeat_text @ [newline]]"
      using ch1 by simp
    have s: "recv_script (demo_sock [] [Recv (line_bytes heartbeat_text),
                                        Recv (line_bytes heartbeat_text)])
               = map Recv [line_bytes heartbeat_text, line_bytes heartbeat_text] @ []"
      by (simp add: demo_sock_def)
    have "concat [heartbeat_text @ [newline], heartbeat_text @ [newline]]
            = frames [heartbeat_text, heartbeat_text]"
      by simp
    with complete_heartbeat_lines_are_skipped [OF hs ch2 s]
    show ?thesis by blast
  qed
  from a b c hs demo_lines(2) show ?thesis
    by (simp add: closed_error_def timeout_error_def demo_sock_def settimeout_def)
qed

subsection \<open>ASCII texts\<close>

lemma unat_ascii: "c < 128 \<Longrightarrow> unat (of_nat c :: 8 word) = c"
  by (simp add: unat_of_nat)

lemma encode_utf8_ascii:
  "list_all (\<lambda>c. c < 128) t \<Longrightarrow> encode_utf8 t = Some (ascii_bytes t)"
  by (induction t) (simp_all add: ascii_bytes_def encode_code_point_def)

lemma decode_utf8_ascii:
  "list_all (\<lambda>b. unat b < 128) c \<Longrightarrow> decode_utf8 c = Some (map unat c)"
  by (induction c) simp_all

lemma unat_ascii_bytes:
  "list_all (\<lambda>c. c < 128) t \<Longrightarrow> map unat (ascii_bytes t) = t"
  by (induction t) (simp_all add: ascii_bytes_def unat_ascii)

lemma ascii_bytes_small:
  "list_all (\<lambda>c. c < 128) t \<Longrightarrow> list_all (\<lambda>b. unat b < 128) (ascii_bytes t)"
  by (induction t) (simp_all add: ascii_bytes_def unat_ascii)

lemma strip_braces: "strip (123 # body @ [125]) = 123 # body @ [125]"
  by (simp add: strip_def isspace_def)

lemma command_obj_no_heartbeat: "\<not> is_heartbeat (command_obj command params)"
  by (simp add: command_obj_def is_heartbeat_def dict_get_def)

text \<open>
  The codec on its own: the text of a command encodes to its ASCII octets and one newline,
  and \<^verbatim>\<open>receive_full_response\<close>, fed these octets in any non-empty chunks, returns
  the object.
\<close>

lemma framing_codec:
  assumes "json_dumps l (command_obj command params) = 123 # body @ [125]"
    and "list_all (\<lambda>c. c < 128 \<and> c \<noteq> newline) body"
    and "json_loads l (123 # body @ [125]) = Some (command_obj command params)"
    and "list_all (\<lambda>c. c \<noteq> []) chunks"
    and "concat chunks = ascii_bytes (123 # body @ [125]) @ [10]"
    and "recv_script k = map Recv chunks @ later"
  shows "encode_utf8 (command_json l command params)
           = Some (ascii_bytes (123 # body @ [125]) @ [10])
       \<and> 10 \<notin> set (ascii_bytes (123 # body @ [125]))
       \<and> receive_full_response l k
           = (Inr (JDict [(ustr ''command'', JStr command),
                          (ustr ''params'', JDict (case params of None \<Rightarrow> [] | Some p \<Rightarrow> p))]),
              (settimeout 10 k)\<lparr>recv_script := later\<rparr>)"
proof -
  let ?text = "123 # body @ [125]"
  from assms(2) have small: "list_all (\<lambda>c. c < 128) (?text @ [newline])"
    by (induction body) (simp_all add: newline_def)
  from assms(2) have nonl: "\<not> has_newline ?text"
    by (induction body) (auto simp: has_newline_def newline_def)
  have bytes: "ascii_bytes (?text @ [newline]) = ascii_bytes ?text @ [10]"
    by (simp add: ascii_bytes_def newline_def)
  have cj: "command_json l command params = ?text @ [newline]"
    by (simp add: command_json_def assms(1))
  have enc: "encode_utf8 (command_json l command params) = Some (ascii_bytes ?text @ [10])"
    unfolding cj bytes [symmetric] by (rule encode_utf8_ascii [OF small])
  have one: "10 \<notin> set (ascii_bytes ?text)"
  proof
    assume "10 \<in> set (ascii_bytes ?text)"
    then have "(10 :: 8 word) \<in> of_nat ` set ?text"
      by (simp only: ascii_bytes_def set_map)
    then obtain c where c: "c \<in> set ?text" "(of_nat c :: 8 word) = 10"
      by (metis imageE)
    with small have "c < 128" by (auto simp: list_all_iff)
    from unat_ascii [OF this] c(2) have "c = newline" by (simp add: newline_def)
    with c(1) nonl show False by (simp add: has_newline_def)
  qed
  have line: "response_line l ?text (command_obj command params)"
    unfolding response_line_def strip_braces
    using nonl assms(3) command_obj_no_heartbeat by simp
  have "list_all (\<lambda>b. unat b < 128) (concat chunks)"
    unfolding assms(5) bytes [symmetric] by (rule ascii_bytes_small [OF small])
  then have each: "\<forall>c \<in> set chunks. list_all (\<lambda>b. unat b < 128) c"
    by (auto simp: list_all_iff)
  have ch: "list_all2 (\<lambda>c t. c \<noteq> [] \<and> decode_utf8 c = Some t) chunks (map (map unat) chunks)"
    using each assms(4)
    by (auto simp: list_all2_map2 list_all2_same list_all_iff decode_utf8_ascii)
  have "concat (map (map unat) chunks) = map unat (concat chunks)"
    by (simp add: map_concat)
  also have "\<dots> = ?text @ [newline]"
    unfolding assms(5) bytes [symmetric] by (rule unat_ascii_bytes [OF small])
  finally have cat: "[] @ concat (map (map unat) chunks) = frames [] @ ?text @ [newline]"
    by simp
  have e: "\<not> has_newline []" by (simp add: has_newline_def)
  from receive_loop_frames [OF ch _ line e cat, of later]
  have "receive_loop l [] (map Recv chunks @ later) = (Inr (command_obj command params), later)"
    by simp
  then have "receive_full_response l k
           = (Inr (command_obj command params), (settimeout 10 k)\<lparr>recv_script := later\<rparr>)"
    by (simp add: receive_full_response_script [OF assms(6)])
  with enc one show ?thesis by (simp add: command_obj_def)
qed

text \<open>
  C4. \<^verbatim>\<open>json.dumps\<close> writes a mapping as one line of ASCII text between braces, and
  \<^verbatim>\<open>json.loads\<close> reads that text back. For every command name and parameter mapping for
  which the library does so, \<^verbatim>\<open>send_command\<close> writes to the socket the UTF-8 text of the
  object \<^verbatim>\<open>{"command": command, "params": params}\<close> followed by one newline, the only
  one in what it writes; and when the peer sends these octets back, in any non-empty chunks,
  the receive path decodes them and \<^verbatim>\<open>send_command\<close> returns the mapping with the
  original command and parameters.
\<close>

theorem framing_round_trip:
  assumes "connected s" and "\<not> lock_held s"
    and "socket s = Some k" and "send_script k = []"
    and "json_dumps (lib e) (command_obj command params) = 123 # body @ [125]"
    and "list_all (\<lambda>c. c < 128 \<and> c \<noteq> newline) body"
    and "json_loads (lib e) (123 # body @ [125]) = Some (command_obj command params)"
    and "list_all (\<lambda>c. c \<noteq> []) chunks"
    and "concat chunks = ascii_bytes (123 # body @ [125]) @ [10]"
    and "recv_script k = map Recv chunks @ later"
  shows "10 \<notin> set (ascii_bytes (123 # body @ [125]))
       \<and> (\<exists>s' k'. send_command e command params track s
                     = Returns (Inr (Some [(ustr ''command'', JStr command),
                                           (ustr ''params'',
                                            JDict (case params of None \<Rightarrow> [] | Some p \<Rightarrow> p))]),
                                s')
                 \<and> socket s' = Some k'
                 \<and> sent k' = sent k @ [ascii_bytes (123 # body @ [125]) @ [10]]
                 \<and> recv_script k' = later)"
proof -
  let ?payload = "ascii_bytes (123 # body @ [125]) @ [10]"
  let ?k1 = "k\<lparr>sent := sent k @ [?payload]\<rparr>"
  let ?k2 = "(settimeout 10 ?k1)\<lparr>recv_script := later\<rparr>"
  let ?d = "[(ustr ''command'', JStr command),
             (ustr ''params'', JDict (case params of None \<Rightarrow> [] | Some p \<Rightarrow> p))]"
  have rs: "recv_script ?k1 = map Recv chunks @ later"
    using assms(10) by simp
  from framing_codec [OF assms(5,6,7,8,9) rs]
  have enc: "encode_utf8 (command_json (lib e) command params) = Some ?payload"
    and one: "10 \<notin> set (ascii_bytes (123 # body @ [125]))"
    and rec: "receive_full_response (lib e) ?k1 = (Inr (JDict ?d), ?k2)"
    by simp_all
  have snd: "sendall k ?payload = (None, ?k1)"
    using assms(4) by (simp add: sendall_def)
  have tr: "transmit e command params s = (Inr (JDict ?d), s\<lparr>socket := Some ?k2\<rparr>)"
    by (simp add: transmit_def assms(3) enc snd rec)
  have g: "dict_get ?d ''status'' \<noteq> JStr (ustr ''error'')"
    "dict_get ?d ''success'' \<noteq> JBool False"
    by (simp_all add: dict_get_def)
  from plain_reply_state [OF assms(1,2) tr g, of track]
  obtain s' where "send_command e command params track s = Returns (Inr (Some ?d), s')"
    "socket s' = Some ?k2"
    by auto
  moreover have "sent ?k2 = sent k @ [?payload]" "recv_script ?k2 = later"
    by (simp_all add: settimeout_def)
  ultimately show ?thesis using one by blast
qed

theorem framing_round_trip_witness:
  "json_dumps spawn_lib (command_obj (ustr ''spawn_actor'') (Some spawn_params))
     = 123 # spawn_body @ [125]
   \<and> json_loads spawn_lib (123 # spawn_body @ [125])
       = Some (command_obj (ustr ''spawn_actor'') (Some spawn_params))
   \<and> list_all (\<lambda>c. c < 128 \<and> c \<noteq> newline) spawn_body
   \<and> concat [ascii_bytes (ustr ''{'' @ quoted ''command'' @ ustr '': ''),
              ascii_bytes (quoted ''spawn_actor'' @ ustr '', '' @ quoted ''params''
                           @ ustr '': {'' @ quoted ''name'' @ ustr '': '' @ quoted ''Box1''
                           @ ustr '', '' @ quoted ''type'' @ ustr '': '' @ quoted ''Cube''
                           @ ustr ''}}'' @ [newline])]
       = ascii_bytes (123 # spawn_body @ [125]) @ [10]
   \<and> (\<exists>s' k'. send_command spawn_env (ustr ''spawn_actor'') (Some spawn_params) True
                 (demo_session
                    (demo_sock []
                       [Recv (ascii_bytes (ustr ''{'' @ quoted ''command'' @ ustr '': '')),
                        Recv (ascii_bytes
                                (quoted ''spawn_actor'' @ ustr '', '' @ quoted ''params''
                                 @ ustr '': {'' @ quoted ''name'' @ ustr '': ''
                                 @ quoted ''Box1'' @ ustr '', '' @ quoted ''type''
                                 @ ustr '': '' @ quoted ''Cube'' @ ustr ''}}'' @ [newline])),
                        Recv (line_bytes heartbeat_text)]))
               = Returns (Inr (Some [(ustr ''command'', JStr (ustr ''spawn_actor'')),
                                     (ustr ''params'',
                                      JDict [(ustr ''name'', JStr (ustr ''Box1'')),
                                             (ustr ''type'', JStr (ustr ''Cube''))])]), s')
             \<and> socket s' = Some k'
             \<and> sent k' = [ascii_bytes (123 # spawn_body @ [125]) @ [10]]
             \<and> recv_script k' = [Recv (line_bytes heartbeat_text)])"
proof -
  let ?c1 = "ascii_bytes (ustr ''{'' @ quoted ''command'' @ ustr '': '')"
  let ?c2 = "ascii_bytes (quoted ''spawn_actor'' @ ustr '', '' @ quoted ''params''
                          @ ustr '': {'' @ quoted ''name'' @ ustr '': '' @ quoted ''Box1''
                          @ ustr '', '' @ quoted ''type'' @ ustr '': '' @ quoted ''Cube''
                          @ ustr ''}}'' @ [newline])"
  let ?later = "[Recv (line_bytes heartbeat_text)]"
  let ?k = "demo_sock [] [Recv ?c1, Recv ?c2, Recv (line_bytes heartbeat_text)]"
  have d: "json_dumps (lib spawn_env) (command_obj (ustr ''spawn_actor'') (Some spawn_params))
             = 123 # spawn_body @ [125]"
    by (simp add: spawn_env_def spawn_lib_def spawn_text_def)
  have a: "list_all (\<lambda>c. c < 128 \<and> c \<noteq> newline) spawn_body"
    by (simp add: demo_texts)
  have lo: "json_loads (lib spawn_env) (123 # spawn_body @ [125])
              = Some (command_obj (ustr ''spawn_actor'') (Some spawn_params))"
    by (simp add: spawn_env_def spawn_lib_def spawn_text_def)
  have ne: "list_all (\<lambda>c. c \<noteq> []) [?c1, ?c2]"
    by (simp add: ascii_bytes_def demo_texts)
  have cat: "concat [?c1, ?c2] = ascii_bytes (123 # spawn_body @ [125]) @ [10]"
    by (simp add: ascii_bytes_def demo_texts)
  have sc: "recv_script ?k = map Recv [?c1, ?c2] @ ?later"
    by (simp add: demo_sock_def)
  have k: "socket (demo_session ?k) = Some ?k" "send_script ?k = []"
    by (simp_all add: demo_sock_def)
  have sent0: "sent ?k = []"
    by (simp add: demo_sock_def)
  from framing_round_trip [OF _ _ k(1,2) d a lo ne cat sc, of True]
  obtain s' k' where r:
    "send_command spawn_env (ustr ''spawn_actor'') (Some spawn_params) True (demo_session ?k)
       = Returns (Inr (Some [(ustr ''command'', JStr (ustr ''spawn_actor'')),
                             (ustr ''params'',
                              JDict (case Some spawn_params of None \<Rightarrow> [] | Some p \<Rightarrow> p))]), s')"
    "socket s' = Some k'"
    "sent k' = sent ?k @ [ascii_bytes (123 # spawn_body @ [125]) @ [10]]"
    "recv_script k' = ?later"
    by auto
  from r(1) have r1:
    "send_command spawn_env (ustr ''spawn_actor'') (Some spawn_params) True (demo_session ?k)
       = Returns (Inr (Some [(ustr ''command'', JStr (ustr ''spawn_actor'')),
                             (ustr ''params'',
                              JDict [(ustr ''name'', JStr (ustr ''Box1'')),
                                     (ustr ''type'', JStr (ustr ''Cube''))])]), s')"
    by (simp only: option.case spawn_params_def)
  from r(3) have r3: "sent k' = [ascii_bytes (123 # spawn_body @ [125]) @ [10]]"
    by (simp only: sent0 append_Nil)
  from d lo have d': "json_dumps spawn_lib (command_obj (ustr ''spawn_actor'') (Some spawn_params))
     = 123 # spawn_body @ [125]"
    and lo': "json_loads spawn_lib (123 # spawn_body @ [125])
       = Some (command_obj (ustr ''spawn_actor'') (Some spawn_params))"
    by (simp_all add: spawn_env_def)
  from r1 r(2) r3 r(4)
  have "\<exists>s' k'. send_command spawn_env (ustr ''spawn_actor'') (Some spawn_params) True
                 (demo_session ?k)
               = Returns (Inr (Some [(ustr ''command'', JStr (ustr ''spawn_actor'')),
                                     (ustr ''params'',
                                      JDict [(ustr ''name'', JStr (ustr ''Box1'')),
                                             (ustr ''type'', JStr (ustr ''Cube''))])]), s')
             \<and> socket s' = Some k'
             \<and> sent k' = [ascii_bytes (123 # spawn_body @ [125]) @ [10]]
             \<and> recv_script k' = [Recv (line_bytes heartbeat_text)]"
    by blast
  with d' lo' a cat show ?thesis by blast
qed

text \<open>
  A message cut in two at a character boundary: both chunks decode, and the message of the
  line is returned once the second chunk has arrived.
\<close>

lemma partial_frame_at_character_boundary:
  assumes "response_line l r m"
    and "c1 \<noteq> []" and "decode_utf8 c1 = Some t1"
    and "c2 \<noteq> []" and "decode_utf8 c2 = Some t2"
    and "t1 @ t2 = r @ [newline]"
    and "recv_script k = Recv c1 # Recv c2 # later"
  shows "receive_full_response l k = (Inr m, (settimeout 10 k)\<lparr>recv_script := later\<rparr>)"
proof -
  have ch: "list_all2 (\<lambda>c t. c \<noteq> [] \<and> decode_utf8 c = Some t) [c1, c2] [t1, t2]"
    using assms by simp
  have e: "\<not> has_newline []" by (simp add: has_newline_def)
  have cat: "[] @ concat [t1, t2] = frames [] @ r @ [newline]"
    using assms(6) by simp
  from receive_loop_frames [OF ch _ assms(1) e cat, of later] show ?thesis
    by (simp add: receive_full_response_script [OF assms(7)])
qed

text \<open>
  C6, the failing input. The reply \<^verbatim>\<open>{"a": "X"}\<close> with U+00E9 for X, a valid UTF-8 JSON
  line of nine characters and ten octets before its newline. Received in one chunk it is
  decoded. Received in two chunks, the first ending with the first octet of U+00E9,
  \<^verbatim>\<open>chunk.decode('utf-8')\<close> raises \<^verbatim>\<open>UnicodeDecodeError\<close> on the first chunk:
  \<^verbatim>\<open>receive_full_response\<close> raises it, and \<^verbatim>\<open>send_command\<close> returns an error response
  and drops the connection instead of the message.
\<close>

theorem partial_frame_split_inside_character:
  "encode_utf8 (accent_text @ [newline]) = Some (accent_head @ accent_tail)
   \<and> json_loads demo_lib accent_text = Some accent_message
   \<and> fst (receive_full_response demo_lib (demo_sock [] [Recv (accent_head @ accent_tail)]))
       = Inr accent_message
   \<and> receive_full_response demo_lib (demo_sock [] [Recv accent_head, Recv accent_tail])
       = (Inl (UnicodeDecodeError
                 ([39] @ ustr ''utf-8'' @ [39] @ ustr '' codec can'' @ [39]
                  @ ustr ''t decode byte 0xc3 in position 7: unexpected end of data'')),
          (settimeout 10 (demo_sock [] []))\<lparr>recv_script := [Recv accent_tail]\<rparr>)
   \<and> fst (transmit demo_env (ustr ''ping'') (Some [])
            (demo_session (demo_sock [] [Recv accent_head, Recv accent_tail])))
       = Inl (UnicodeDecodeError
                 ([39] @ ustr ''utf-8'' @ [39] @ ustr '' codec can'' @ [39]
                  @ ustr ''t decode byte 0xc3 in position 7: unexpected end of data''))"
proof -
  have a: "encode_utf8 (accent_text @ [newline]) = Some (accent_head @ accent_tail)"
    by (simp add: accent_text_def accent_head_def accent_tail_def quoted_def ustr_def
          ascii_bytes_def newline_def encode_code_point_def)
  have b: "json_loads demo_lib accent_text = Some accent_message"
    by (simp add: demo_lib_def demo_documents_def demo_texts)
  have c: "fst (receive_full_response demo_lib (demo_sock [] [Recv (accent_head @ accent_tail)]))
       = Inr accent_message"
    by (simp add: receive_eval accent_head_def accent_tail_def demo_texts demo_messages)
  have d: "receive_full_response demo_lib (demo_sock [] [Recv accent_head, Recv accent_tail])
       = (Inl (UnicodeDecodeError
                 ([39] @ ustr ''utf-8'' @ [39] @ ustr '' codec can'' @ [39]
                  @ ustr ''t decode byte 0xc3 in position 7: unexpected end of data'')),
          (settimeout 10 (demo_sock [] []))\<lparr>recv_script := [Recv accent_tail]\<rparr>)"
    by (simp add: receive_eval accent_head_def quoted_def ustr_def)
  from d have e: "fst (transmit demo_env (ustr ''ping'') (Some [])
            (demo_session (demo_sock [] [Recv accent_head, Recv accent_tail])))
       = Inl (UnicodeDecodeError
                 ([39] @ ustr ''utf-8'' @ [39] @ ustr '' codec can'' @ [39]
                  @ ustr ''t decode byte 0xc3 in position 7: unexpected end of data''))"
    by (simp add: demo_transmit)
  from a b c d e show ?thesis by blast
qed

section \<open>Further facts about the exchange\<close>

text \<open>Where the exceptions of the write and the read come from.\<close>

lemma transmit_no_socket:
  "socket s = None \<Longrightarrow> fst (transmit e c p s) = Inl (no_attribute ''NoneType'' ''sendall'')"
  by (simp add: transmit_def)

lemma transmit_write_fault:
  assumes "socket s = Some k"
    and "encode_utf8 (command_json (lib e) c p) = Some payload"
    and "send_script k = Some err # rest"
  shows "fst (transmit e c p s) = Inl err"
  using assms by (simp add: transmit_def sendall_def)

lemma transmit_read:
  assumes "socket s = Some k"
    and "encode_utf8 (command_json (lib e) c p) = Some payload"
    and "sendall k payload = (None, k1)"
  shows "fst (transmit e c p s) = fst (receive_full_response (lib e) k1)"
  using assms by (simp add: transmit_def split: prod.splits)

lemma transmit_sends_payload:
  assumes "socket s = Some k"
    and "encode_utf8 (command_json (lib e) c p) = Some payload"
    and "send_script k = []"
  shows "\<exists>k2. socket (snd (transmit e c p s)) = Some k2 \<and> sent k2 = sent k @ [payload]"
  using assms
  by (simp add: transmit_def sendall_def receive_full_response_def settimeout_def
        split: prod.splits)

text \<open>
  A line that does not parse is put back, stripped, in front of what follows it, and the loop
  waits for the next chunk.
\<close>

lemma process_buffer_pushback:
  assumes "\<not> has_newline line" and "strip line \<noteq> []"
    and "json_loads l (strip line) = None"
  shows "process_buffer l (line @ newline # rest)
           = Pending (strip line @ (if rest \<noteq> [] then newline # rest else []))"
proof -
  have h: "has_newline (line @ newline # rest)" by (simp add: has_newline_def)
  show ?thesis
    using assms(2,3)
    by (subst process_buffer.simps) (simp add: h split_newline_line [OF assms(1)] Let_def)
qed

text \<open>A reply that reports no error is returned as it is, and the session stays connected.\<close>

lemma plain_reply_passes_through:
  assumes "connected s" and "\<not> lock_held s"
    and "transmit e c p s = (Inr (JDict d), s1)"
    and "dict_get d ''status'' \<noteq> JStr (ustr ''error'')"
    and "dict_get d ''success'' \<noteq> JBool False"
  shows "\<exists>s'. send_command e c p t s = Returns (Inr (Some d), s') \<and> connected s'
              \<and> socket s' \<noteq> None"
proof -
  from assms(3)
  have "transmit e c p (s\<lparr>lock_held := True\<rparr>) = (Inr (JDict d), s1\<lparr>lock_held := True\<rparr>)"
    by (simp add: transmit_lock)
  from exchange_reply [OF this] transmit_frame [OF assms(3)] transmit_Inr_socket [OF assms(3)]
  show ?thesis
    using assms(1,2,4,5)
    by (auto simp: send_command_connected normalize_response_def track_response_def)
qed

section \<open>Heartbeats and the last parse of the buffer\<close>

text \<open>
  C5, the failing input. The reply stream is one heartbeat line followed by the response
  line. The first \<^verbatim>\<open>recv\<close> returns the heartbeat's text without its newline and the
  next one times out: the handler of \<^verbatim>\<open>socket.timeout\<close> (lines 149 to 155) parses the
  buffer and returns the heartbeat, without the test of line 130, and \<^verbatim>\<open>send_command\<close>
  hands the heartbeat to its caller as the response. The same happens when the peer closes
  the connection after the heartbeat's text (lines 138 to 144).
\<close>

theorem heartbeat_returned_by_last_parse:
  "is_heartbeat heartbeat_message
   \<and> receive_full_response demo_lib
       (demo_sock [] [Recv (ascii_bytes heartbeat_text), RecvRaises SocketTimeout,
                      Recv (ascii_bytes ([newline] @ success_text @ [newline]))])
     = (Inr heartbeat_message,
        (settimeout 10 (demo_sock [] []))
          \<lparr>recv_script := [Recv (ascii_bytes ([newline] @ success_text @ [newline]))]\<rparr>)
   \<and> receive_full_response demo_lib (demo_sock [] [Recv (ascii_bytes heartbeat_text)])
     = (Inr heartbeat_message, settimeout 10 (demo_sock [] []))
   \<and> (\<exists>s'. send_command demo_env (ustr ''ping'') (Some []) True
              (demo_session
                 (demo_sock [] [Recv (ascii_bytes heartbeat_text), RecvRaises SocketTimeout,
                                Recv (ascii_bytes ([newline] @ success_text @ [newline]))]))
            = Returns (Inr (Some [(ustr ''type'', JStr (ustr ''heartbeat''))]), s')
          \<and> connected s')"
proof -
  let ?events = "[Recv (ascii_bytes heartbeat_text), RecvRaises SocketTimeout,
                  Recv (ascii_bytes ([newline] @ success_text @ [newline]))]"
  have a: "is_heartbeat heartbeat_message"
    by (simp add: is_heartbeat_def heartbeat_message_def dict_get_def)
  have b: "receive_full_response demo_lib (demo_sock [] ?events)
     = (Inr heartbeat_message,
        (settimeout 10 (demo_sock [] []))
          \<lparr>recv_script := [Recv (ascii_bytes ([newline] @ success_text @ [newline]))]\<rparr>)"
    by (simp add: receive_eval demo_texts demo_messages)
  have c: "receive_full_response demo_lib (demo_sock [] [Recv (ascii_bytes heartbeat_text)])
     = (Inr heartbeat_message, settimeout 10 (demo_sock [] []))"
    by (simp add: receive_eval demo_texts demo_messages)
  from b have "fst (transmit demo_env (ustr ''ping'') (Some []) (demo_session (demo_sock [] ?events)))
      = Inr (JDict [(ustr ''type'', JStr (ustr ''heartbeat''))])"
    by (simp add: demo_transmit heartbeat_message_def)
  then have t: "transmit demo_env (ustr ''ping'') (Some []) (demo_session (demo_sock [] ?events))
      = (Inr (JDict [(ustr ''type'', JStr (ustr ''heartbeat''))]),
         snd (transmit demo_env (ustr ''ping'') (Some []) (demo_session (demo_sock [] ?events))))"
    by (simp add: prod_eq_iff)
  have g: "dict_get [(ustr ''type'', JStr (ustr ''heartbeat''))] ''status'' \<noteq> JStr (ustr ''error'')"
    "dict_get [(ustr ''type'', JStr (ustr ''heartbeat''))] ''success'' \<noteq> JBool False"
    by (simp_all add: dict_get_def)
  from plain_reply_state [OF _ _ t g, of True]
  have d: "\<exists>s'. send_command demo_env (ustr ''ping'') (Some []) True
              (demo_session (demo_sock [] ?events))
            = Returns (Inr (Some [(ustr ''type'', JStr (ustr ''heartbeat''))]), s')
          \<and> connected s'"
    by auto
  from a b c d show ?thesis by blast
qed

end
